theory Spec2Isabelle
  imports Complex_Main "HOL-Library.Sublist"
begin

section \<open>Python strings\<close>

text \<open>
  The module \<^verbatim>\<open>src/modules/weather.py\<close> works on Python \<^verbatim>\<open>str\<close> values, which are
  sequences of Unicode characters. A \<^verbatim>\<open>str\<close> is modelled by \<^typ>\<open>string\<close>: the list of the
  bytes of its UTF-8 encoding, so that the two characters outside ASCII that the module's
  messages contain (the degree sign and the typographic apostrophe) are the byte
  sequences the source file holds. A character is the list of the bytes that encode it;
  \<open>utf8_chars\<close> splits a string into its characters by the lead bytes.
\<close>

type_synonym uchar = string

definition utf8_length :: "char \<Rightarrow> nat" where
  \<comment> \<open>the number of bytes of the character that starts with this byte\<close>
  "utf8_length c =
     (let n = (of_char c :: int) in
      if n < 128 then 1
      else if 192 \<le> n \<and> n < 224 then 2
      else if 224 \<le> n \<and> n < 240 then 3
      else if 240 \<le> n \<and> n < 248 then 4
      else 1)"

function utf8_chars :: "string \<Rightarrow> uchar list" where
  "utf8_chars [] = []"
| "utf8_chars (c # cs) =
     take (utf8_length c) (c # cs) # utf8_chars (drop (utf8_length c) (c # cs))"
  by pat_completeness auto
termination
  by (relation "measure length") (auto simp: utf8_length_def Let_def)

definition continuation :: "int \<Rightarrow> bool" where
  "continuation b = (128 \<le> b \<and> b < 192)"

definition codepoint :: "uchar \<Rightarrow> int option" where
  \<comment> \<open>the code point that a character encodes\<close>
  "codepoint ch =
     (case map of_char ch of
        [a] \<Rightarrow> if a < 128 then Some a else None
      | [a, b] \<Rightarrow>
          if 192 \<le> a \<and> a < 224 \<and> continuation b
          then Some ((a - 192) * 64 + (b - 128)) else None
      | [a, b, c] \<Rightarrow>
          if 224 \<le> a \<and> a < 240 \<and> continuation b \<and> continuation c
          then Some ((a - 224) * 4096 + (b - 128) * 64 + (c - 128)) else None
      | [a, b, c, d] \<Rightarrow>
          if 240 \<le> a \<and> a < 248 \<and> continuation b \<and> continuation c \<and> continuation d
          then Some ((a - 240) * 262144 + (b - 128) * 4096 + (c - 128) * 64 + (d - 128))
          else None
      | _ \<Rightarrow> None)"

definition ascii_char :: "uchar \<Rightarrow> char option" where
  \<comment> \<open>the byte of a character of ASCII\<close>
  "ascii_char ch =
     (case ch of [c] \<Rightarrow> if (of_char c :: int) < 128 then Some c else None | _ \<Rightarrow> None)"

definition py_isspace :: "uchar \<Rightarrow> bool" where
  \<comment> \<open>\<^verbatim>\<open>str.isspace\<close> on one character, which is also the class \<^verbatim>\<open>\s\<close> of \<^verbatim>\<open>re\<close>: TAB, LF, VT,
      FF, CR, FS, GS, RS, US, space, U+0085, U+00A0, U+1680, U+2000 to U+200A, U+2028,
      U+2029, U+202F, U+205F and U+3000\<close>
  "py_isspace ch =
     (case codepoint ch of
        None \<Rightarrow> False
      | Some n \<Rightarrow>
          (9 \<le> n \<and> n \<le> 13) \<or> (28 \<le> n \<and> n \<le> 32) \<or> n = 0x85 \<or> n = 0xA0 \<or> n = 0x1680
          \<or> (0x2000 \<le> n \<and> n \<le> 0x200A) \<or> n = 0x2028 \<or> n = 0x2029 \<or> n = 0x202F
          \<or> n = 0x205F \<or> n = 0x3000)"

definition ascii_isupper :: "char \<Rightarrow> bool" where
  "ascii_isupper c = (let n = (of_char c :: int) in 65 \<le> n \<and> n \<le> 90)"

definition ascii_islower :: "char \<Rightarrow> bool" where
  "ascii_islower c = (let n = (of_char c :: int) in 97 \<le> n \<and> n \<le> 122)"

definition lower_char :: "char \<Rightarrow> char" where
  "lower_char c = (if ascii_isupper c then char_of (of_char c + (32 :: int)) else c)"

definition upper_char :: "char \<Rightarrow> char" where
  "upper_char c = (if ascii_islower c then char_of (of_char c - (32 :: int)) else c)"

text \<open>
  The case tables of Python's Unicode database are written out for ASCII, where
  \<^verbatim>\<open>A\<close> to \<^verbatim>\<open>Z\<close> and \<^verbatim>\<open>a\<close> to \<^verbatim>\<open>z\<close> are the cased characters. For the characters
  outside ASCII the tables are a parameter of the model:
  \<^item> \<open>to_lower left ch right\<close> is the lowercase mapping of the character \<open>ch\<close> that stands
    between the characters \<open>left\<close> and \<open>right\<close> (the mapping gives one or more
    characters, and for the capital sigma it depends on the neighbours);
  \<^item> \<open>to_title ch\<close> is the titlecase mapping of \<open>ch\<close>;
  \<^item> \<open>is_cased ch\<close> says whether \<open>ch\<close> is a cased character.
\<close>

record unicode =
  to_lower :: "uchar list \<Rightarrow> uchar \<Rightarrow> uchar list \<Rightarrow> string"
  to_title :: "uchar \<Rightarrow> string"
  is_cased :: "uchar \<Rightarrow> bool"

definition lower_at :: "unicode \<Rightarrow> uchar list \<Rightarrow> uchar \<Rightarrow> uchar list \<Rightarrow> string" where
  "lower_at U left ch right =
     (case ascii_char ch of
        Some c \<Rightarrow> [lower_char c]
      | None \<Rightarrow> to_lower U left ch right)"

definition title_at :: "unicode \<Rightarrow> uchar \<Rightarrow> string" where
  "title_at U ch = (case ascii_char ch of Some c \<Rightarrow> [upper_char c] | None \<Rightarrow> to_title U ch)"

definition cased :: "unicode \<Rightarrow> uchar \<Rightarrow> bool" where
  "cased U ch =
     (case ascii_char ch of
        Some c \<Rightarrow> ascii_isupper c \<or> ascii_islower c
      | None \<Rightarrow> is_cased U ch)"

fun lower_chars :: "unicode \<Rightarrow> uchar list \<Rightarrow> uchar list \<Rightarrow> string" where
  "lower_chars U left [] = []"
| "lower_chars U left (ch # right) =
     lower_at U left ch right @ lower_chars U (left @ [ch]) right"

definition py_lower :: "unicode \<Rightarrow> string \<Rightarrow> string" where
  \<comment> \<open>\<^verbatim>\<open>s.lower()\<close>: every character is replaced by its lowercase mapping\<close>
  "py_lower U s = lower_chars U [] (utf8_chars s)"

text \<open>
  \<^verbatim>\<open>s.title()\<close>: a character that follows a cased character is replaced by its lowercase
  mapping, every other character by its titlecase mapping; the flag carries whether the
  previous character was cased.
\<close>

fun title_from :: "unicode \<Rightarrow> bool \<Rightarrow> uchar list \<Rightarrow> uchar list \<Rightarrow> string" where
  "title_from U previous_is_cased left [] = []"
| "title_from U previous_is_cased left (ch # right) =
     (if previous_is_cased then lower_at U left ch right else title_at U ch)
       @ title_from U (cased U ch) (left @ [ch]) right"

definition py_title :: "unicode \<Rightarrow> string \<Rightarrow> string" where
  "py_title U s = title_from U False [] (utf8_chars s)"

definition py_strip :: "string \<Rightarrow> string" where
  \<comment> \<open>\<^verbatim>\<open>s.strip()\<close>: the white space characters at both ends are removed\<close>
  "py_strip s =
     concat (rev (dropWhile py_isspace (rev (dropWhile py_isspace (utf8_chars s)))))"

text \<open>
  \<^verbatim>\<open>s.replace(old, new)\<close>: one pass from the left over the occurrences of \<^verbatim>\<open>old\<close> that
  do not overlap. With an empty \<^verbatim>\<open>old\<close>, Python puts \<^verbatim>\<open>new\<close> before every character
  and at the end. An occurrence of a string in another one is the same on the characters
  and on the bytes of UTF-8, where no character's encoding starts inside another one's.
\<close>

function replace_from :: "string \<Rightarrow> string \<Rightarrow> string \<Rightarrow> string" where
  "replace_from [] old new = []"
| "replace_from (c # cs) old new =
     (if old \<noteq> [] \<and> prefix old (c # cs)
      then new @ replace_from (drop (length old) (c # cs)) old new
      else c # replace_from cs old new)"
  by pat_completeness auto
termination
  by (relation "measure (\<lambda>(s, old, new). length s)") auto

definition py_replace :: "string \<Rightarrow> string \<Rightarrow> string \<Rightarrow> string" where
  "py_replace s old new =
     (if old = [] then new @ concat (map (\<lambda>ch. ch @ new) (utf8_chars s))
      else replace_from s old new)"

fun py_in :: "string \<Rightarrow> string \<Rightarrow> bool" where
  \<comment> \<open>\<^verbatim>\<open>sub in s\<close> on strings: the search for \<^verbatim>\<open>sub\<close> from every position of \<^verbatim>\<open>s\<close>\<close>
  "py_in sub [] = (sub = [])"
| "py_in sub (c # cs) = (prefix sub (c # cs) \<or> py_in sub cs)"

section \<open>The regular expression of \<^verbatim>\<open>parse_weather_input\<close>\<close>

text \<open>
  \<^verbatim>\<open>re.search(r"in ([a-zA-Z\s]+)", s)\<close>: the leftmost position where the letters
  \<^verbatim>\<open>in\<close> and a space are followed by at least one character of the class; the group
  is the longest run of class characters from there (the \<^verbatim>\<open>+\<close> is greedy and nothing
  follows it in the pattern). The result is \<^verbatim>\<open>match.group(1)\<close>, or \<open>None\<close> when there
  is no match. The three bytes of \<^verbatim>\<open>in\<close> and the space are ASCII, so they are found
  only where characters start.
\<close>

definition in_class :: "uchar \<Rightarrow> bool" where
  \<comment> \<open>\<^verbatim>\<open>[a-zA-Z\s]\<close>\<close>
  "in_class ch =
     ((case ascii_char ch of Some c \<Rightarrow> ascii_islower c \<or> ascii_isupper c | None \<Rightarrow> False)
      \<or> py_isspace ch)"

fun re_search_in :: "string \<Rightarrow> string option" where
  "re_search_in [] = None"
| "re_search_in (c # cs) =
     (if prefix ''in '' (c # cs)
         \<and> (case utf8_chars (drop 3 (c # cs)) of [] \<Rightarrow> False | d # _ \<Rightarrow> in_class d)
      then Some (concat (takeWhile in_class (utf8_chars (drop 3 (c # cs)))))
      else re_search_in cs)"

section \<open>\<^verbatim>\<open>parse_weather_input\<close>\<close>

definition parse_keywords :: "string list" where
  "parse_keywords =
     [''weather'', ''forecast'', ''tomorrow'', ''today'', ''is it'', ''will it'',
      ''rain'', ''raining'', ''sunny'', ''snow'', ''cold'', ''hot'', ''outside'', ''be'', ''in'', ''the'']"

definition remove_keywords :: "string list \<Rightarrow> string \<Rightarrow> string" where
  \<comment> \<open>\<^verbatim>\<open>for keyword in keywords: location = location.replace(keyword, "")\<close>\<close>
  "remove_keywords keywords location = foldl (\<lambda>loc keyword. py_replace loc keyword []) location keywords"

text \<open>
  In the source the loop over the keywords and the line
  \<^verbatim>\<open>location = location.strip().title()\<close> are indented under the \<^verbatim>\<open>else\<close>: they run
  only when the regular expression did not match.
\<close>

definition parse_weather_input :: "unicode \<Rightarrow> string \<Rightarrow> string \<times> bool" where
  "parse_weather_input U user_input0 =
     (let user_input = py_lower U user_input0;
          is_tomorrow = (py_in ''tomorrow'' user_input \<or> py_in ''next day'' user_input);
          location =
            (case re_search_in user_input of
               Some group1 \<Rightarrow> group1
             | None \<Rightarrow> py_title U (py_strip (remove_keywords parse_keywords user_input)))
      in (location, is_tomorrow))"

section \<open>The location clean-up of \<^verbatim>\<open>handle_weather\<close>\<close>

definition sanitize_keywords :: "string list" where
  "sanitize_keywords =
     [''weather'', ''forecast'', ''tomorrow'', ''today'', ''is it'', ''will it'', ''rain'',
      ''sunny'', ''in'', ''be'', ''outside'', ''what'', ''is'', ''the'', ''of'']"

definition sanitize :: "unicode \<Rightarrow> string \<Rightarrow> string" where
  \<comment> \<open>lines 159 to 162 of the source, from \<^verbatim>\<open>raw_location\<close> to \<^verbatim>\<open>location\<close>\<close>
  "sanitize U raw_location =
     py_title U (py_strip (remove_keywords sanitize_keywords (py_lower U raw_location)))"

section \<open>Exceptions and JSON values\<close>

text \<open>
  An exception is a value. \<open>RequestException\<close> stands for
  \<^verbatim>\<open>requests.exceptions.RequestException\<close> and its subclasses and carries \<^verbatim>\<open>str(e)\<close>;
  \<open>KeyError\<close> carries the key that was not found; \<open>OtherException\<close> stands for any other
  subclass of \<^verbatim>\<open>Exception\<close> that a collaborator raises. Every constructor is a subclass
  of \<^verbatim>\<open>Exception\<close>, so \<^verbatim>\<open>except Exception\<close> catches all of them. A computation that
  may raise has a type \<open>exc + 'a\<close>, with \<open>Inl\<close> for the raised exception.
\<close>

datatype exc =
    RequestException string
  | KeyError string
  | IndexError
  | TypeError
  | AttributeError
  | OtherException string

definition and_then :: "exc + 'a \<Rightarrow> ('a \<Rightarrow> exc + 'b) \<Rightarrow> exc + 'b" where
  "and_then r f = (case r of Inl e \<Rightarrow> Inl e | Inr x \<Rightarrow> f x)"

text \<open>
  The values \<^verbatim>\<open>response.json()\<close> returns. A Python \<^verbatim>\<open>float\<close> is a rational number, an
  infinity or NaN (Python's decoder accepts the literals \<^verbatim>\<open>Infinity\<close> and \<^verbatim>\<open>NaN\<close>); a
  \<^verbatim>\<open>dict\<close> is an association list read with \<^const>\<open>map_of\<close>.
\<close>

datatype pyfloat = Finite rat | PosInf | NegInf | NaN

datatype json =
    JNull
  | JBool bool
  | JInt int
  | JFloat pyfloat
  | JStr string
  | JArr "json list"
  | JObj "(string \<times> json) list"

text \<open>The decimal digits of an integer, as \<^verbatim>\<open>str()\<close> gives them.\<close>

definition digit_char :: "nat \<Rightarrow> char" where
  "digit_char d = char_of (48 + d)"

function str_nat :: "nat \<Rightarrow> string" where
  "str_nat n = (if n < 10 then [digit_char n] else str_nat (n div 10) @ [digit_char (n mod 10)])"
  by pat_completeness auto
termination
  by (relation "measure (\<lambda>n. n)") auto

definition str_int :: "int \<Rightarrow> string" where
  "str_int i = (if i < 0 then CHR ''-'' # str_nat (nat (- i)) else str_nat (nat i))"

text \<open>The operations of Python that the module applies to the decoded values.\<close>

fun py_contains :: "string \<Rightarrow> json \<Rightarrow> exc + bool" where
  \<comment> \<open>\<^verbatim>\<open>key in v\<close> for a string \<^verbatim>\<open>key\<close>\<close>
  "py_contains k (JObj kvs) = Inr (map_of kvs k \<noteq> None)"
| "py_contains k (JArr xs) = Inr (JStr k \<in> set xs)"
| "py_contains k (JStr s) = Inr (py_in k s)"
| "py_contains k _ = Inl TypeError"

fun py_getitem :: "json \<Rightarrow> string \<Rightarrow> exc + json" where
  \<comment> \<open>\<^verbatim>\<open>v[key]\<close> for a string \<^verbatim>\<open>key\<close>\<close>
  "py_getitem (JObj kvs) k = (case map_of kvs k of None \<Rightarrow> Inl (KeyError k) | Some v \<Rightarrow> Inr v)"
| "py_getitem _ k = Inl TypeError"

fun py_index :: "json \<Rightarrow> nat \<Rightarrow> exc + json" where
  \<comment> \<open>\<^verbatim>\<open>v[i]\<close> for an integer literal \<^verbatim>\<open>i\<close> (the module uses 0 and 1)\<close>
  "py_index (JArr xs) i = (if i < length xs then Inr (xs ! i) else Inl IndexError)"
| "py_index (JStr s) i =
     (if i < length (utf8_chars s) then Inr (JStr (utf8_chars s ! i)) else Inl IndexError)"
| "py_index (JObj kvs) i = Inl (KeyError (str_nat i))"
| "py_index _ i = Inl TypeError"

fun py_len :: "json \<Rightarrow> exc + nat" where
  "py_len (JArr xs) = Inr (length xs)"
| "py_len (JStr s) = Inr (length (utf8_chars s))"
| "py_len (JObj kvs) = Inr (length (remdups (map fst kvs)))"
| "py_len _ = Inl TypeError"

fun py_get :: "json \<Rightarrow> string \<Rightarrow> json \<Rightarrow> exc + json" where
  \<comment> \<open>\<^verbatim>\<open>v.get(key, default)\<close>\<close>
  "py_get (JObj kvs) k d = Inr (case map_of kvs k of None \<Rightarrow> d | Some v \<Rightarrow> v)"
| "py_get _ k d = Inl AttributeError"

fun float_gt :: "pyfloat \<Rightarrow> int \<Rightarrow> bool" where
  "float_gt (Finite q) n = (of_int n < q)"
| "float_gt PosInf n = True"
| "float_gt NegInf n = False"
| "float_gt NaN n = False"

fun float_lt :: "pyfloat \<Rightarrow> int \<Rightarrow> bool" where
  "float_lt (Finite q) n = (q < of_int n)"
| "float_lt PosInf n = False"
| "float_lt NegInf n = True"
| "float_lt NaN n = False"

fun py_gt :: "json \<Rightarrow> int \<Rightarrow> exc + bool" where
  \<comment> \<open>\<^verbatim>\<open>v > n\<close> for an integer literal \<^verbatim>\<open>n\<close>\<close>
  "py_gt (JInt i) n = Inr (n < i)"
| "py_gt (JBool b) n = Inr (n < (if b then 1 else 0))"
| "py_gt (JFloat f) n = Inr (float_gt f n)"
| "py_gt _ n = Inl TypeError"

fun py_lt :: "json \<Rightarrow> int \<Rightarrow> exc + bool" where
  \<comment> \<open>\<^verbatim>\<open>v < n\<close> for an integer literal \<^verbatim>\<open>n\<close>\<close>
  "py_lt (JInt i) n = Inr (i < n)"
| "py_lt (JBool b) n = Inr ((if b then 1 else 0) < n)"
| "py_lt (JFloat f) n = Inr (float_lt f n)"
| "py_lt _ n = Inl TypeError"

section \<open>The collaborators of the module\<close>

text \<open>
  What the module calls and does not define is a parameter of the model:
  \<^item> \<open>extract_location\<close> is \<^verbatim>\<open>modules.utils.extract_location(user_input, self.llm)\<close>, the
    extraction by a language model: it returns a string or raises;
  \<^item> \<open>weather_description_fetcher\<close> is the function of that name that line 3 imports from
    \<^verbatim>\<open>modules.utils\<close>; the field gives \<^verbatim>\<open>str()\<close> of what it returns, or what it raises;
  \<^item> \<open>requests_get\<close> is \<^verbatim>\<open>requests.get(url)\<close>: it raises or returns a response, of which
    the module calls \<^verbatim>\<open>raise_for_status()\<close> and \<^verbatim>\<open>json()\<close>;
  \<^item> \<open>py_repr\<close> is Python's \<^verbatim>\<open>str()\<close> on floats, lists and dicts;
  \<^item> \<open>unicode_data\<close> holds the case tables of Python's Unicode database outside ASCII.
  The records that the module sends to its logger have no part in what it returns and are
  left out.
\<close>

record response =
  raise_for_status :: "exc option"
  json_of :: "exc + json"

record env =
  extract_location :: "string \<Rightarrow> exc + string"
  weather_description_fetcher :: "json \<Rightarrow> exc + string"
  requests_get :: "string \<Rightarrow> exc + response"
  py_repr :: "json \<Rightarrow> string"
  unicode_data :: unicode

fun py_str :: "env \<Rightarrow> json \<Rightarrow> string" where
  "py_str E (JStr s) = s"
| "py_str E (JInt i) = str_int i"
| "py_str E (JBool b) = (if b then ''True'' else ''False'')"
| "py_str E JNull = ''None''"
| "py_str E v = py_repr E v"

text \<open>
  A call of the module returns a string or raises, and it sends HTTP requests: the second
  component lists the URLs given to \<^verbatim>\<open>requests.get\<close>, in the order of the calls.
\<close>

type_synonym 'a io = "(exc + 'a) \<times> string list"

definition io_return :: "'a \<Rightarrow> 'a io" where
  "io_return x = (Inr x, [])"

definition io_of :: "exc + 'a \<Rightarrow> 'a io" where
  "io_of r = (r, [])"

definition io_bind :: "'a io \<Rightarrow> ('a \<Rightarrow> 'b io) \<Rightarrow> 'b io" where
  "io_bind m f =
     (case m of
        (Inl e, urls) \<Rightarrow> (Inl e, urls)
      | (Inr x, urls) \<Rightarrow> (case f x of (r, urls') \<Rightarrow> (r, urls @ urls')))"

definition get_json :: "env \<Rightarrow> string \<Rightarrow> json io" where
  \<comment> \<open>\<^verbatim>\<open>r = requests.get(url); r.raise_for_status(); r.json()\<close>\<close>
  "get_json E url =
     ((case requests_get E url of
         Inl e \<Rightarrow> Inl e
       | Inr r \<Rightarrow> (case raise_for_status r of Some e \<Rightarrow> Inl e | None \<Rightarrow> json_of r)),
      [url])"

section \<open>\<^verbatim>\<open>WeatherModule.weather_description_fetcher\<close>\<close>

text \<open>
  The static method of the class (lines 30 to 41): a dictionary from the condition code
  to its description, read with \<^verbatim>\<open>.get(code, "Unknown conditions")\<close>.
\<close>

definition weather_conditions :: "(int \<times> string) list" where
  "weather_conditions =
     [(0, ''Clear sky''), (1, ''Mainly clear''), (2, ''Partly cloudy''), (3, ''Overcast''),
      (45, ''Foggy''), (48, ''Depositing rime fog''), (51, ''Light drizzle''),
      (53, ''Moderate drizzle''), (55, ''Dense drizzle''), (61, ''Slight rain''),
      (63, ''Moderate rain''), (65, ''Heavy rain''), (71, ''Slight snow''),
      (73, ''Moderate snow''), (75, ''Heavy snow''), (80, ''Rain showers''),
      (81, ''Moderate rain showers''), (82, ''Heavy rain showers''),
      (95, ''Thunderstorm''), (96, ''Thunderstorm with hail'')]"

definition WeatherModule_weather_description_fetcher :: "int \<Rightarrow> string" where
  "WeatherModule_weather_description_fetcher code =
     (case map_of weather_conditions code of
        None \<Rightarrow> ''Unknown conditions''
      | Some description \<Rightarrow> description)"

section \<open>\<^verbatim>\<open>WeatherModule.fetch_weather\<close>\<close>

definition geocode_url :: "string \<Rightarrow> string" where
  "geocode_url location = ''https://geocoding-api.open-meteo.com/v1/search?name='' @ location"

definition weather_url :: "env \<Rightarrow> json \<Rightarrow> json \<Rightarrow> bool \<Rightarrow> string" where
  "weather_url E latitude longitude is_tomorrow =
     (if is_tomorrow
      then ''https://api.open-meteo.com/v1/forecast?''
             @ ''latitude='' @ py_str E latitude @ ''&longitude='' @ py_str E longitude
             @ ''&daily=temperature_2m_max,temperature_2m_min,weathercode''
             @ ''&timezone=auto''
      else ''https://api.open-meteo.com/v1/forecast?''
             @ ''latitude='' @ py_str E latitude @ ''&longitude='' @ py_str E longitude
             @ ''&current_weather=true'')"

definition degree_sign :: string where
  \<comment> \<open>U+00B0 in UTF-8\<close>
  "degree_sign = [CHR 0xC2, CHR 0xB0]"

definition right_quote :: string where
  \<comment> \<open>U+2019 in UTF-8\<close>
  "right_quote = [CHR 0xE2, CHR 0x80, CHR 0x99]"

definition not_found_message :: "string \<Rightarrow> string" where
  "not_found_message location =
     ''Sorry, I couldn't find weather details for ''
       @ [CHR 0x27] @ location @ [CHR 0x27] @ ''. Please try the same or another location.''"

definition tomorrow_unavailable_message :: string where
  \<comment> \<open>line 102\<close>
  "tomorrow_unavailable_message =
     ''Sorry, I couldn't fetch tomorrow'' @ right_quote @ ''s forecast right now.''"

definition current_unavailable_message :: string where
  \<comment> \<open>line 123\<close>
  "current_unavailable_message = ''Sorry, I couldn't fetch the weather details at this time.''"

definition no_results :: "json \<Rightarrow> exc + bool" where
  \<comment> \<open>line 58: \<^verbatim>\<open>"results" not in geocode_data or len(geocode_data["results"]) == 0\<close>\<close>
  "no_results geocode_data =
     and_then (py_contains ''results'' geocode_data) (\<lambda>present.
       if \<not> present then Inr True
       else and_then (py_getitem geocode_data ''results'') (\<lambda>results.
            and_then (py_len results) (\<lambda>n. Inr (n = 0))))"

definition first_result_field :: "json \<Rightarrow> string \<Rightarrow> exc + json" where
  \<comment> \<open>\<^verbatim>\<open>geocode_data["results"][0][field]\<close>\<close>
  "first_result_field geocode_data field =
     and_then (py_getitem geocode_data ''results'') (\<lambda>results.
     and_then (py_index results 0) (\<lambda>first. py_getitem first field))"

definition tomorrow_message :: "env \<Rightarrow> json \<Rightarrow> string \<Rightarrow> json \<Rightarrow> json \<Rightarrow> string" where
  "tomorrow_message E location_name description temp_max temp_min =
     ''The weather in '' @ py_str E location_name @ '' tomorrow will be '' @ description @ '', ''
       @ ''with a high of '' @ py_str E temp_max @ degree_sign @ ''C and a low of ''
       @ py_str E temp_min @ degree_sign @ ''C.''"

definition tomorrow_forecast :: "env \<Rightarrow> json \<Rightarrow> json \<Rightarrow> exc + string" where
  \<comment> \<open>lines 87 to 99, the body of the inner \<^verbatim>\<open>try\<close>\<close>
  "tomorrow_forecast E location_name weather_data =
     and_then (py_getitem weather_data ''daily'') (\<lambda>daily.
     and_then (and_then (py_getitem daily ''weathercode'') (\<lambda>a. py_index a 1)) (\<lambda>weather_code.
     and_then (and_then (py_getitem daily ''temperature_2m_max'') (\<lambda>a. py_index a 1)) (\<lambda>temp_max.
     and_then (and_then (py_getitem daily ''temperature_2m_min'') (\<lambda>a. py_index a 1)) (\<lambda>temp_min.
     and_then (weather_description_fetcher E weather_code) (\<lambda>description.
       Inr (tomorrow_message E location_name description temp_max temp_min))))))"

definition temperature_description :: "json \<Rightarrow> exc + string" where
  \<comment> \<open>line 114: \<^verbatim>\<open>"hot" if temperature > 30 else "cold" if temperature < 15 else "moderate"\<close>\<close>
  "temperature_description temperature =
     and_then (py_gt temperature 30) (\<lambda>hot.
       if hot then Inr ''hot''
       else and_then (py_lt temperature 15) (\<lambda>cold.
              if cold then Inr ''cold'' else Inr ''moderate''))"

definition current_message :: "env \<Rightarrow> json \<Rightarrow> string \<Rightarrow> json \<Rightarrow> string \<Rightarrow> json \<Rightarrow> string" where
  "current_message E location_name weather_description temperature temperature_desc windspeed =
     ''The current weather in '' @ py_str E location_name @ '' is '' @ weather_description
       @ '' with a temperature of '' @ py_str E temperature @ degree_sign @ ''C (''
       @ temperature_desc @ '') and a windspeed of '' @ py_str E windspeed @ '' km/h.''"

definition current_conditions :: "env \<Rightarrow> json \<Rightarrow> json \<Rightarrow> exc + string" where
  \<comment> \<open>lines 105 to 123\<close>
  "current_conditions E location_name weather_data =
     and_then (py_contains ''current_weather'' weather_data) (\<lambda>present.
       if present then
         and_then (py_getitem weather_data ''current_weather'') (\<lambda>current_weather.
         and_then (py_getitem current_weather ''temperature'') (\<lambda>temperature.
         and_then (py_getitem current_weather ''windspeed'') (\<lambda>windspeed.
         and_then (py_get current_weather ''weathercode'' (JInt (- 1))) (\<lambda>weather_code.
         and_then (weather_description_fetcher E weather_code) (\<lambda>weather_description.
         and_then (temperature_description temperature) (\<lambda>temperature_desc.
           Inr (current_message E location_name weather_description temperature
                  temperature_desc windspeed)))))))
       else Inr current_unavailable_message)"

definition fetch_forecast :: "env \<Rightarrow> json \<Rightarrow> json \<Rightarrow> json \<Rightarrow> bool \<Rightarrow> string io" where
  \<comment> \<open>lines 66 to 123: the second request and the message\<close>
  "fetch_forecast E latitude longitude location_name is_tomorrow =
     io_bind (get_json E (weather_url E latitude longitude is_tomorrow)) (\<lambda>weather_data.
       io_of
         (if is_tomorrow then
            (case tomorrow_forecast E location_name weather_data of
               Inr message \<Rightarrow> Inr message
             | Inl e \<Rightarrow> Inr tomorrow_unavailable_message)
          else current_conditions E location_name weather_data))"

definition fetch_weather_try :: "env \<Rightarrow> string \<Rightarrow> bool \<Rightarrow> string io" where
  \<comment> \<open>lines 53 to 123, the body of the outer \<^verbatim>\<open>try\<close>\<close>
  "fetch_weather_try E location is_tomorrow =
     io_bind (get_json E (geocode_url location)) (\<lambda>geocode_data.
     io_bind (io_of (no_results geocode_data)) (\<lambda>none.
       if none then io_return (not_found_message location)
       else
         io_bind (io_of (first_result_field geocode_data ''latitude'')) (\<lambda>latitude.
         io_bind (io_of (first_result_field geocode_data ''longitude'')) (\<lambda>longitude.
         io_bind (io_of (first_result_field geocode_data ''name'')) (\<lambda>location_name.
           fetch_forecast E latitude longitude location_name is_tomorrow)))))"

definition except_RequestException :: "string io \<Rightarrow> string io" where
  \<comment> \<open>lines 125 to 127: only a \<open>RequestException\<close> is caught\<close>
  "except_RequestException m =
     (case m of
        (Inl (RequestException msg), urls) \<Rightarrow>
          (Inr (''An error occurred while fetching weather data: '' @ msg), urls)
      | _ \<Rightarrow> m)"

definition fetch_weather :: "env \<Rightarrow> string \<Rightarrow> bool \<Rightarrow> string io" where
  "fetch_weather E location is_tomorrow =
     except_RequestException (fetch_weather_try E location is_tomorrow)"

section \<open>\<^verbatim>\<open>WeatherModule.handle_weather\<close>\<close>

definition clarification_message :: string where
  "clarification_message = ''Sorry, I couldn't identify the location. Could you rephrase your query?''"

definition generic_error_message :: string where
  "generic_error_message = ''An error occurred while fetching the weather. Please try again later.''"

text \<open>
  The calls of \<^verbatim>\<open>parse_weather_input\<close> and \<^verbatim>\<open>extract_location\<close> and the clean-up stand
  before the \<^verbatim>\<open>try\<close> of line 173; only the call of \<^verbatim>\<open>fetch_weather\<close> is inside it.
\<close>

definition handle_weather :: "env \<Rightarrow> string \<Rightarrow> string io" where
  "handle_weather E user_input =
     (let is_tomorrow = snd (parse_weather_input (unicode_data E) user_input) in
      io_bind (io_of (extract_location E user_input)) (\<lambda>raw_location.
        let location = sanitize (unicode_data E) raw_location in
        if location = [] then io_return clarification_message
        else
          (case fetch_weather E location is_tomorrow of
             (Inr response, urls) \<Rightarrow> (Inr response, urls)
           | (Inl e, urls) \<Rightarrow> (Inr generic_error_message, urls))))"

section \<open>Predicates and sample collaborators for the statements\<close>

text \<open>
  What the clean-up is meant to do with one keyword, stated without the algorithm:
  \<open>occurrences_removed k s t\<close> holds when \<open>t\<close> is \<open>s\<close> without the occurrences of \<open>k\<close>,
  found from the left: either \<open>k\<close> does not occur in \<open>s\<close>, or \<open>s\<close> is \<open>p @ k @ r\<close> where
  this occurrence is the first one (\<open>k\<close> does not occur in \<open>p @ butlast k\<close>), the
  occurrence is dropped and the rest \<open>r\<close> is treated the same way. No condition asks for a
  word boundary. \<open>removed_in_turn\<close> does this for the keywords of a list, one after the
  other.
\<close>

inductive occurrences_removed :: "string \<Rightarrow> string \<Rightarrow> string \<Rightarrow> bool" where
  no_occurrence: "\<not> sublist k s \<Longrightarrow> occurrences_removed k s s"
| first_occurrence:
    "\<not> sublist k (p @ butlast k) \<Longrightarrow> occurrences_removed k r t \<Longrightarrow>
       occurrences_removed k (p @ k @ r) (p @ t)"

inductive removed_in_turn :: "string list \<Rightarrow> string \<Rightarrow> string \<Rightarrow> bool" where
  none_left: "removed_in_turn [] s s"
| next_keyword:
    "occurrences_removed k s s' \<Longrightarrow> removed_in_turn ks s' t \<Longrightarrow> removed_in_turn (k # ks) s t"

text \<open>
  A string is unbordered when no proper, non-empty beginning of it is also its end: two
  occurrences of such a string never overlap.
\<close>

definition unbordered :: "string \<Rightarrow> bool" where
  "unbordered k = (k \<noteq> [] \<and> (\<forall>n \<in> set [1..<length k]. take n k \<noteq> drop (length k - n) k))"

definition replies :: "env \<Rightarrow> string \<Rightarrow> json \<Rightarrow> bool" where
  \<comment> \<open>the request for \<open>url\<close> succeeds, its status is no error and its body decodes to \<open>v\<close>\<close>
  "replies E url v =
     (case requests_get E url of
        Inl e \<Rightarrow> False
      | Inr r \<Rightarrow> raise_for_status r = None \<and> json_of r = Inr v)"

fun number_of :: "json \<Rightarrow> rat option" where
  \<comment> \<open>the number a temperature stands for, when it is a finite number\<close>
  "number_of (JInt i) = Some (of_int i)"
| "number_of (JFloat (Finite q)) = Some q"
| "number_of (JBool b) = Some (if b then 1 else 0)"
| "number_of _ = None"

text \<open>
  Modelled from the spec: \<^verbatim>\<open>modules.utils.weather_description_fetcher\<close>, the function that
  \<^verbatim>\<open>fetch_weather\<close> calls, is not among the sources. The spec (ResponseFormatter) has the
  condition description resolved through the ConditionCodeTable, with unknown codes
  rendered as "Unknown conditions". This stand-in is used only where a statement needs a
  concrete collaborator.
\<close>

definition spec_weather_description_fetcher :: "json \<Rightarrow> exc + string" where
  "spec_weather_description_fetcher code =
     (case code of
        JInt i \<Rightarrow> Inr (WeatherModule_weather_description_fetcher i)
      | _ \<Rightarrow> Inr ''Unknown conditions'')"

definition sample_repr :: "json \<Rightarrow> string" where
  \<comment> \<open>\<^verbatim>\<open>str()\<close> on the floats of the samples\<close>
  "sample_repr v =
     (if v = JFloat (Finite (37 / 2)) then ''18.5''
      else if v = JFloat (Finite (369 / 5)) then ''73.8''
      else if v = JFloat (Finite (61 / 5)) then ''12.2''
      else ''?'')"

definition pune_first :: "(string \<times> json) list" where
  "pune_first =
     [(''name'', JStr ''Pune''),
      (''latitude'', JFloat (Finite (37 / 2))),
      (''longitude'', JFloat (Finite (369 / 5)))]"

definition pune_results :: "(string \<times> json) list" where
  "pune_results =
     [(''results'',
       JArr [JObj pune_first,
             JObj [(''name'', JStr ''Pune Station''), (''latitude'', JInt 18), (''longitude'', JInt 73)]])]"

definition pune_daily :: "(string \<times> json) list" where
  "pune_daily =
     [(''temperature_2m_max'', JArr [JInt 30, JInt 31, JInt 29]),
      (''temperature_2m_min'', JArr [JInt 21, JInt 22, JInt 20]),
      (''weathercode'', JArr [JInt 3, JInt 61, JInt 0])]"

definition pune_forecast :: "(string \<times> json) list" where
  "pune_forecast = [(''daily'', JObj pune_daily)]"

definition pune_current :: "int \<Rightarrow> (string \<times> json) list" where
  "pune_current temperature =
     [(''temperature'', JInt temperature),
      (''windspeed'', JFloat (Finite (61 / 5))),
      (''weathercode'', JInt 2)]"

definition pune_conditions :: "int \<Rightarrow> (string \<times> json) list" where
  "pune_conditions temperature = [(''current_weather'', JObj (pune_current temperature))]"

text \<open>
  Sample case tables: Python's for the characters U+0080 to U+00FF (two bytes, the first
  one C2 or C3); a character beyond U+00FF is mapped to itself and is not cased.
\<close>

definition latin1_second :: "uchar \<Rightarrow> int \<Rightarrow> int option" where
  \<comment> \<open>the second byte of a character of two bytes with the given first byte\<close>
  "latin1_second ch first =
     (case map of_char ch of [a, b] \<Rightarrow> if a = first then Some b else None | _ \<Rightarrow> None)"

definition sample_to_lower :: "uchar list \<Rightarrow> uchar \<Rightarrow> uchar list \<Rightarrow> string" where
  \<comment> \<open>U+00C0 to U+00DE without U+00D7 go to the character 32 further\<close>
  "sample_to_lower left ch right =
     (case latin1_second ch 0xC3 of
        Some b \<Rightarrow> if 0x80 \<le> b \<and> b \<le> 0x9E \<and> b \<noteq> 0x97 then [CHR 0xC3, char_of (b + 32)] else ch
      | None \<Rightarrow> ch)"

definition sample_to_title :: "uchar \<Rightarrow> string" where
  \<comment> \<open>U+00E0 to U+00FE without U+00F7 go to the character 32 before; U+00DF goes to
      \<^verbatim>\<open>Ss\<close>, U+00FF to U+0178 and U+00B5 to U+039C\<close>
  "sample_to_title ch =
     (case latin1_second ch 0xC3 of
        Some b \<Rightarrow>
          if 0xA0 \<le> b \<and> b \<le> 0xBE \<and> b \<noteq> 0xB7 then [CHR 0xC3, char_of (b - 32)]
          else if b = 0x9F then ''Ss''
          else if b = 0xBF then [CHR 0xC5, CHR 0xB8]
          else ch
      | None \<Rightarrow> if ch = [CHR 0xC2, CHR 0xB5] then [CHR 0xCE, CHR 0x9C] else ch)"

definition sample_is_cased :: "uchar \<Rightarrow> bool" where
  \<comment> \<open>U+00AA, U+00B5, U+00BA, and U+00C0 to U+00FF without U+00D7 and U+00F7\<close>
  "sample_is_cased ch =
     (case latin1_second ch 0xC3 of
        Some b \<Rightarrow> 0x80 \<le> b \<and> b \<le> 0xBF \<and> b \<noteq> 0x97 \<and> b \<noteq> 0xB7
      | None \<Rightarrow> ch = [CHR 0xC2, CHR 0xAA] \<or> ch = [CHR 0xC2, CHR 0xB5] \<or> ch = [CHR 0xC2, CHR 0xBA])"

definition sample_unicode :: unicode where
  "sample_unicode =
     \<lparr>to_lower = sample_to_lower, to_title = sample_to_title, is_cased = sample_is_cased\<rparr>"

definition sample_requests_get :: "json \<Rightarrow> json \<Rightarrow> string \<Rightarrow> exc + response" where
  "sample_requests_get geocode_data weather_data url =
     (if url = geocode_url ''Pune''
      then Inr \<lparr>raise_for_status = None, json_of = Inr geocode_data\<rparr>
      else Inr \<lparr>raise_for_status = None, json_of = Inr weather_data\<rparr>)"

definition sample_env :: "string \<Rightarrow> json \<Rightarrow> json \<Rightarrow> env" where
  "sample_env raw_location geocode_data weather_data =
     \<lparr>extract_location = (\<lambda>user_input. Inr raw_location),
      weather_description_fetcher = spec_weather_description_fetcher,
      requests_get = sample_requests_get geocode_data weather_data,
      py_repr = sample_repr,
      unicode_data = sample_unicode\<rparr>"

definition failing_extractor_env :: env where
  "failing_extractor_env =
     (sample_env ''Pune'' (JObj pune_results) (JObj pune_forecast))
       \<lparr>extract_location := (\<lambda>user_input. Inl (OtherException ''model unavailable''))\<rparr>"

definition other_fetcher_env :: "json \<Rightarrow> env" where
  \<comment> \<open>a collaborator whose imported description function differs from the table of the class\<close>
  "other_fetcher_env weather_data =
     (sample_env ''Pune'' (JObj pune_results) weather_data)
       \<lparr>weather_description_fetcher := (\<lambda>code. Inr ''Sunny spells'')\<rparr>"

text \<open>
  The answers of \<^verbatim>\<open>fetch_weather\<close>, by kind: the four messages without a condition
  description, and the two sentences with one, where the description is a value that the
  imported \<^verbatim>\<open>weather_description_fetcher\<close> returned for some code.
\<close>

inductive fetch_weather_answer :: "env \<Rightarrow> string \<Rightarrow> bool" where
  not_found: "fetch_weather_answer E (not_found_message location)"
| request_failed: "fetch_weather_answer E (''An error occurred while fetching weather data: '' @ msg)"
| tomorrow_unavailable: "fetch_weather_answer E tomorrow_unavailable_message"
| current_unavailable: "fetch_weather_answer E current_unavailable_message"
| tomorrow:
    "weather_description_fetcher E weather_code = Inr description \<Longrightarrow>
       fetch_weather_answer E (tomorrow_message E location_name description temp_max temp_min)"
| current:
    "weather_description_fetcher E weather_code = Inr description \<Longrightarrow>
       fetch_weather_answer E
         (current_message E location_name description temperature temperature_desc windspeed)"

section \<open>Facts about the model\<close>

subsection \<open>Strings\<close>

lemma py_in_sublist: "py_in sub s = sublist sub s"
  by (induction s) (auto simp: sublist_Cons_right)

lemma prefix_butlast_extend:
  assumes "k \<noteq> []" and "prefix k (xs @ butlast k)"
  shows "prefix k (xs @ k @ r)"
proof -
  have "xs @ k @ r = (xs @ butlast k) @ (last k # r)"
    using assms(1) by simp
  with assms(2) show ?thesis
    by (metis prefix_prefix)
qed

lemma prefix_butlast_restrict:
  assumes "k \<noteq> []" and "prefix k (xs @ k @ r)" and "xs \<noteq> []"
  shows "prefix k (xs @ butlast k)"
proof -
  have eq: "xs @ k @ r = (xs @ butlast k) @ (last k # r)"
    using assms(1) by simp
  have "length k \<le> length (xs @ butlast k)"
    using assms(1,3) by (cases xs) auto
  moreover have "prefix (xs @ butlast k) (xs @ k @ r)"
    unfolding eq by simp
  ultimately show ?thesis
    using assms(2) by (rule_tac prefix_length_prefix)
qed

lemma occurrences_removed_Cons:
  assumes "k \<noteq> []" and "\<not> prefix k (c # s)" and "occurrences_removed k s t"
  shows "occurrences_removed k (c # s) (c # t)"
  using assms(3)
proof cases
  case no_occurrence
  with assms(2) have "\<not> sublist k (c # s)"
    by (simp add: sublist_Cons_right)
  then show ?thesis
    using no_occurrence by (auto intro: occurrences_removed.no_occurrence)
next
  case (first_occurrence p r t')
  have "\<not> prefix k ((c # p) @ butlast k)"
    using assms(1,2) first_occurrence(1) prefix_butlast_extend [of k "c # p" r] by auto
  with first_occurrence(3) have "\<not> sublist k ((c # p) @ butlast k)"
    by (simp add: sublist_Cons_right)
  from occurrences_removed.first_occurrence [OF this first_occurrence(4)]
  show ?thesis using first_occurrence(1,2) by simp
qed

lemma replace_from_removes:
  "k \<noteq> [] \<Longrightarrow> occurrences_removed k s (replace_from s k [])"
proof (induction s k "[] :: string" rule: replace_from.induct)
  case (1 old)
  then show ?case by (auto intro: no_occurrence)
next
  case (2 c cs old)
  have ne: "old \<noteq> []" using "2.prems" .
  show ?case
  proof (cases "prefix old (c # cs)")
    case True
    then obtain r where r: "c # cs = old @ r" by (auto simp: prefix_def)
    then have d: "drop (length old) (c # cs) = r" by simp
    have ih: "occurrences_removed old r (replace_from r old [])"
      using 2(1) True ne d by simp
    have "length (butlast old) < length old"
      using ne by simp
    then have "\<not> sublist old ([] @ butlast old)"
      using sublist_length_le [of old "butlast old"] by auto
    from first_occurrence [OF this ih]
    have "occurrences_removed old (c # cs) (replace_from r old [])"
      by (simp add: r)
    moreover have "replace_from (c # cs) old [] = replace_from r old []"
      using True ne d by simp
    ultimately show ?thesis by simp
  next
    case False
    with 2(2) ne have "occurrences_removed old cs (replace_from cs old [])" by simp
    from occurrences_removed_Cons [OF ne False this] show ?thesis
      using False by simp
  qed
qed

lemma py_replace_removes:
  "k \<noteq> [] \<Longrightarrow> occurrences_removed k s (py_replace s k [])"
  by (simp add: py_replace_def replace_from_removes)

lemma replace_from_no_occurrence:
  "k \<noteq> [] \<Longrightarrow> \<not> sublist k s \<Longrightarrow> replace_from s k [] = s"
  by (induction s) (auto simp: sublist_Cons_right)

lemma replace_from_first_occurrence:
  "k \<noteq> [] \<Longrightarrow> \<not> sublist k (p @ butlast k) \<Longrightarrow>
     replace_from (p @ k @ r) k [] = p @ replace_from r k []"
proof (induction p)
  case Nil
  then show ?case by (cases k) simp_all
next
  case (Cons c p)
  have np: "\<not> prefix k ((c # p) @ butlast k)" and ns: "\<not> sublist k (p @ butlast k)"
    using Cons(3) by (auto simp: sublist_Cons_right)
  have "\<not> prefix k ((c # p) @ k @ r)"
    using np prefix_butlast_restrict [OF Cons(2), of "c # p" r] by auto
  then show ?case
    using Cons(1) [OF Cons(2) ns] Cons(2) by simp
qed

lemma occurrences_removed_unique:
  "occurrences_removed k s t \<Longrightarrow> k \<noteq> [] \<Longrightarrow> t = py_replace s k []"
  by (induction rule: occurrences_removed.induct)
     (simp_all add: py_replace_def replace_from_no_occurrence replace_from_first_occurrence)

lemma occurrences_removed_iff:
  "k \<noteq> [] \<Longrightarrow> occurrences_removed k s t \<longleftrightarrow> t = py_replace s k []"
  using py_replace_removes occurrences_removed_unique by blast

lemma removed_in_turn_iff:
  "[] \<notin> set ks \<Longrightarrow> removed_in_turn ks s t \<longleftrightarrow> t = remove_keywords ks s"
proof (induction ks arbitrary: s)
  case Nil
  show ?case by (auto simp: remove_keywords_def intro: none_left elim: removed_in_turn.cases)
next
  case (Cons k ks)
  then have k: "k \<noteq> []" and ks: "[] \<notin> set ks" by auto
  show ?case
  proof
    assume "removed_in_turn (k # ks) s t"
    then obtain s' where "occurrences_removed k s s'" and "removed_in_turn ks s' t"
      by (auto elim: removed_in_turn.cases)
    then show "t = remove_keywords (k # ks) s"
      using Cons.IH [OF ks] occurrences_removed_iff [OF k] by (simp add: remove_keywords_def)
  next
    assume "t = remove_keywords (k # ks) s"
    then have "removed_in_turn ks (py_replace s k []) t"
      using Cons.IH [OF ks] by (simp add: remove_keywords_def)
    with py_replace_removes [OF k] show "removed_in_turn (k # ks) s t"
      by (rule next_keyword)
  qed
qed

lemma unbordered_no_border:
  assumes "unbordered k" and "u \<noteq> []" and "length u < length k"
    and "prefix u k" and "suffix u k"
  shows False
proof -
  have "take (length u) k = u"
    using assms(4) by (auto simp: prefix_def)
  moreover have "drop (length k - length u) k = u"
    using assms(5) by (auto simp: suffix_def)
  moreover have "length u \<in> set [1..<length k]"
    using assms(2,3) by (cases u) auto
  ultimately show False
    using assms(1) unfolding unbordered_def by metis
qed

lemma prefix_across_occurrence:
  assumes "unbordered k" and "prefix k (p @ k @ r)" and "p \<noteq> []"
  shows "prefix k p"
proof (cases "length k \<le> length p")
  case True
  moreover have "prefix p (p @ k @ r)" by simp
  ultimately show ?thesis
    using assms(2) by (rule_tac prefix_length_prefix)
next
  case False
  then have short: "length p < length k" by simp
  have "prefix p (p @ k @ r)" by simp
  with assms(2) short have "prefix p k"
    by (metis prefix_length_prefix less_imp_le)
  then obtain u where u: "k = p @ u" by (auto simp: prefix_def)
  with short have "u \<noteq> []" by auto
  from assms(2) u have "prefix u (k @ r)" by (metis same_prefix_prefix append_assoc)
  moreover have "length u < length k" using u assms(3) by (cases p) auto
  moreover have "prefix k (k @ r)" by simp
  ultimately have "prefix u k"
    by (metis prefix_length_prefix less_imp_le)
  moreover have "suffix u k" using u by (auto simp: suffix_def)
  ultimately show ?thesis
    using unbordered_no_border [OF assms(1) \<open>u \<noteq> []\<close> \<open>length u < length k\<close>] by blast
qed

lemma replace_from_every_occurrence:
  "unbordered k \<Longrightarrow>
     replace_from (p @ k @ r) k [] = replace_from p k [] @ replace_from r k []"
proof (induction p k "[] :: string" rule: replace_from.induct)
  case (1 old)
  then have "old \<noteq> []" by (simp add: unbordered_def)
  then show ?case by (cases old) simp_all
next
  case (2 c cs old)
  have ne: "old \<noteq> []" using 2(3) by (simp add: unbordered_def)
  show ?case
  proof (cases "prefix old (c # cs)")
    case True
    then have le: "length old \<le> length (c # cs)" by (rule prefix_length_le)
    have pre: "prefix old ((c # cs) @ old @ r)"
      using True by (metis prefix_prefix)
    have "replace_from ((c # cs) @ old @ r) old [] =
        replace_from (drop (length old) ((c # cs) @ old @ r)) old []"
      using pre ne by simp
    also have "drop (length old) ((c # cs) @ old @ r) = drop (length old) (c # cs) @ old @ r"
      using le by (simp only: drop_append) simp
    also have "replace_from (drop (length old) (c # cs) @ old @ r) old [] =
        replace_from (drop (length old) (c # cs)) old [] @ replace_from r old []"
      using 2(1) True ne 2(3) by simp
    also have "replace_from (drop (length old) (c # cs)) old [] = replace_from (c # cs) old []"
      using True ne by simp
    finally show ?thesis .
  next
    case False
    have "\<not> prefix old ((c # cs) @ old @ r)"
      using False prefix_across_occurrence [OF 2(3), of "c # cs" r] by auto
    then have "replace_from ((c # cs) @ old @ r) old [] = c # replace_from (cs @ old @ r) old []"
      by simp
    also have "replace_from (cs @ old @ r) old [] = replace_from cs old [] @ replace_from r old []"
      using 2(2) False 2(3) by simp
    finally show ?thesis using False by simp
  qed
qed

lemma sanitize_keywords_unbordered: "\<forall>k \<in> set sanitize_keywords. unbordered k"
  by code_simp

lemma py_replace_every_occurrence:
  assumes "k \<in> set sanitize_keywords"
  shows "py_replace (p @ k @ r) k [] = py_replace p k [] @ py_replace r k []"
proof -
  have u: "unbordered k" using assms sanitize_keywords_unbordered by blast
  then have "k \<noteq> []" by (simp add: unbordered_def)
  then show ?thesis
    using replace_from_every_occurrence [OF u] by (simp add: py_replace_def)
qed

lemma sanitize_keywords_nonempty: "[] \<notin> set sanitize_keywords"
  by (simp add: sanitize_keywords_def)

text \<open>
  Each keyword is removed in one pass: an occurrence that only comes about when another
  one is removed stays in the string.
\<close>

lemma sanitize_single_pass: "sanitize U ''iinn'' = ''In''"
  by code_simp

text \<open>The class \<^verbatim>\<open>\s\<close> of the regular expression holds the no-break space.\<close>

lemma re_search_in_no_break_space:
  "re_search_in (''go in pune'' @ [CHR 0xC2, CHR 0xA0] @ ''x!'')
     = Some (''pune'' @ [CHR 0xC2, CHR 0xA0] @ ''x'')"
  by code_simp

lemma will_it_rain_is_tomorrow:
  "snd (parse_weather_input U ''Will it rain in Pune tomorrow?'') = True"
  by code_simp

lemma str_int_31: "str_int 31 = ''31''" by code_simp
lemma str_int_22: "str_int 22 = ''22''" by code_simp

subsection \<open>The table and the requests\<close>

lemma distinct_weather_conditions: "distinct (map fst weather_conditions)"
  by (simp add: weather_conditions_def)

lemma get_json_replies: "replies E url v \<Longrightarrow> get_json E url = (Inr v, [url])"
  by (auto simp: replies_def get_json_def split: sum.splits)

lemma fetch_weather_try_geocoded:
  assumes "replies E (geocode_url location) (JObj g)"
    and "map_of g ''results'' = Some (JArr (JObj first # others))"
    and "map_of first ''latitude'' = Some latitude"
    and "map_of first ''longitude'' = Some longitude"
    and "map_of first ''name'' = Some location_name"
  shows "fetch_weather_try E location is_tomorrow =
           (case fetch_forecast E latitude longitude location_name is_tomorrow of
              (r, urls) \<Rightarrow> (r, geocode_url location # urls))"
  using assms
  by (simp add: fetch_weather_try_def get_json_replies io_bind_def io_of_def io_return_def
        no_results_def first_result_field_def and_then_def split: prod.splits)

lemma fetch_weather_try_no_results:
  assumes "replies E (geocode_url location) (JObj geocode_data)"
    and "map_of geocode_data ''results'' = None \<or> map_of geocode_data ''results'' = Some (JArr [])"
  shows "fetch_weather_try E location is_tomorrow =
           (Inr (not_found_message location), [geocode_url location])"
  using assms
  by (auto simp: fetch_weather_try_def get_json_replies io_bind_def io_of_def io_return_def
        no_results_def and_then_def)

lemma fetch_forecast_tomorrow:
  assumes "replies E (weather_url E latitude longitude True) (JObj weather_data)"
    and "map_of weather_data ''daily'' = Some (JObj daily)"
    and "map_of daily ''temperature_2m_max'' = Some (JArr (max_today # temp_max # max_rest))"
    and "map_of daily ''temperature_2m_min'' = Some (JArr (min_today # temp_min # min_rest))"
    and "map_of daily ''weathercode'' = Some (JArr (code_today # weather_code # code_rest))"
    and "weather_description_fetcher E weather_code = Inr description"
  shows "fetch_forecast E latitude longitude location_name True =
           (Inr (tomorrow_message E location_name description temp_max temp_min),
            [weather_url E latitude longitude True])"
  using assms
  by (simp add: fetch_forecast_def get_json_replies io_bind_def io_of_def
        tomorrow_forecast_def and_then_def)

lemma temperature_description_number:
  "number_of temperature = Some t \<Longrightarrow>
     temperature_description temperature =
       Inr (if 30 < t then ''hot'' else if t < 15 then ''cold'' else ''moderate'')"
  by (cases temperature rule: number_of.cases)
     (auto simp: temperature_description_def and_then_def)

lemma fetch_forecast_current:
  assumes "replies E (weather_url E latitude longitude False) (JObj weather_data)"
    and "map_of weather_data ''current_weather'' = Some (JObj current_weather)"
    and "map_of current_weather ''temperature'' = Some temperature"
    and "map_of current_weather ''windspeed'' = Some windspeed"
    and "weather_description_fetcher E
           (case map_of current_weather ''weathercode'' of None \<Rightarrow> JInt (- 1) | Some c \<Rightarrow> c)
         = Inr description"
    and "temperature_description temperature = Inr temperature_desc"
  shows "fetch_forecast E latitude longitude location_name False =
           (Inr (current_message E location_name description temperature temperature_desc windspeed),
            [weather_url E latitude longitude False])"
  using assms
  by (simp add: fetch_forecast_def get_json_replies io_bind_def io_of_def
        current_conditions_def and_then_def)

lemma snd_fetch_forecast:
  "snd (fetch_forecast E latitude longitude location_name is_tomorrow) =
     [weather_url E latitude longitude is_tomorrow]"
  by (auto simp: fetch_forecast_def get_json_def io_bind_def io_of_def split: sum.splits option.splits)

lemma snd_except_RequestException: "snd (except_RequestException m) = snd m"
  by (auto simp: except_RequestException_def split: prod.splits sum.splits exc.splits)

subsection \<open>Every answer of \<^verbatim>\<open>fetch_weather\<close>\<close>

lemma tomorrow_forecast_answer:
  "tomorrow_forecast E location_name weather_data = Inr message \<Longrightarrow> fetch_weather_answer E message"
  by (auto simp: tomorrow_forecast_def and_then_def split: sum.splits intro: tomorrow)

lemma current_conditions_answer:
  "current_conditions E location_name weather_data = Inr message \<Longrightarrow> fetch_weather_answer E message"
  by (auto simp: current_conditions_def and_then_def split: sum.splits if_splits
           intro: current current_unavailable)

lemma fetch_forecast_answer:
  "fetch_forecast E latitude longitude location_name is_tomorrow = (Inr message, urls) \<Longrightarrow>
     fetch_weather_answer E message"
  by (auto simp: fetch_forecast_def io_bind_def io_of_def
           split: sum.splits prod.splits if_splits
           intro: tomorrow_forecast_answer current_conditions_answer tomorrow_unavailable)

lemma fetch_weather_try_answer:
  "fetch_weather_try E location is_tomorrow = (Inr message, urls) \<Longrightarrow>
     fetch_weather_answer E message"
  by (auto simp: fetch_weather_try_def io_bind_def io_of_def io_return_def
           split: sum.splits prod.splits if_splits
           intro: fetch_forecast_answer not_found)

lemma fetch_weather_answer_all:
  "fetch_weather E location is_tomorrow = (Inr message, urls) \<Longrightarrow> fetch_weather_answer E message"
proof -
  assume a: "fetch_weather E location is_tomorrow = (Inr message, urls)"
  obtain r t where tr: "fetch_weather_try E location is_tomorrow = (r, t)"
    by (cases "fetch_weather_try E location is_tomorrow")
  show ?thesis
  proof (cases r)
    case (Inr m)
    with a tr have "fetch_weather_try E location is_tomorrow = (Inr message, urls)"
      by (simp add: fetch_weather_def except_RequestException_def)
    then show ?thesis by (rule fetch_weather_try_answer)
  next
    case (Inl e)
    with a tr obtain msg where "message = ''An error occurred while fetching weather data: '' @ msg"
      by (cases e) (auto simp add: fetch_weather_def except_RequestException_def simp del: append.simps)
    then show ?thesis by (simp only: request_failed)
  qed
qed

subsection \<open>The sample collaborators\<close>

lemma sample_weather_url:
  "weather_url (sample_env raw g w) (JFloat (Finite (37 / 2))) (JFloat (Finite (369 / 5))) False =
     ''https://api.open-meteo.com/v1/forecast?latitude=18.5&longitude=73.8&current_weather=true''"
  by (simp add: weather_url_def sample_env_def sample_repr_def)

lemma sample_weather_url_tomorrow:
  "weather_url (sample_env raw g w) (JFloat (Finite (37 / 2))) (JFloat (Finite (369 / 5))) True =
     ''https://api.open-meteo.com/v1/forecast?latitude=18.5&longitude=73.8&daily=temperature_2m_max,temperature_2m_min,weathercode&timezone=auto''"
  by (simp add: weather_url_def sample_env_def sample_repr_def)

lemma sample_replies_geocode: "replies (sample_env raw g w) (geocode_url ''Pune'') g"
  by (simp add: replies_def sample_env_def sample_requests_get_def)

lemma sample_replies_weather:
  "replies (sample_env raw g w)
     (weather_url (sample_env raw g w) (JFloat (Finite (37 / 2))) (JFloat (Finite (369 / 5))) is_tomorrow) w"
  by (cases is_tomorrow)
     (simp_all add: sample_weather_url sample_weather_url_tomorrow,
      simp_all add: replies_def sample_env_def sample_requests_get_def geocode_url_def)

lemma pune_results_first:
  "map_of pune_results ''results'' =
     Some (JArr (JObj pune_first #
       [JObj [(''name'', JStr ''Pune Station''), (''latitude'', JInt 18), (''longitude'', JInt 73)]]))"
  by (simp add: pune_results_def)

lemma pune_first_fields:
  "map_of pune_first ''latitude'' = Some (JFloat (Finite (37 / 2)))"
  "map_of pune_first ''longitude'' = Some (JFloat (Finite (369 / 5)))"
  "map_of pune_first ''name'' = Some (JStr ''Pune'')"
  by (simp_all add: pune_first_def)

lemma other_fetcher_replies_geocode:
  "replies (other_fetcher_env w) (geocode_url ''Pune'') (JObj pune_results)"
  by (simp add: replies_def other_fetcher_env_def sample_env_def sample_requests_get_def)

lemma other_fetcher_replies_weather:
  "replies (other_fetcher_env w)
     (weather_url (other_fetcher_env w) (JFloat (Finite (37 / 2))) (JFloat (Finite (369 / 5))) is_tomorrow) w"
  by (cases is_tomorrow)
     (simp_all add: replies_def other_fetcher_env_def sample_env_def sample_requests_get_def
        geocode_url_def weather_url_def sample_repr_def)

section \<open>The claims\<close>

subsection \<open>C1: which exceptions leave \<^verbatim>\<open>handle_weather\<close>\<close>

text \<open>
  C1 says that \<^verbatim>\<open>handle_weather\<close> returns a string on every input and that an exception of
  \<^verbatim>\<open>extract_location\<close> is caught and turned into a generic message. The call of
  \<^verbatim>\<open>extract_location\<close> (line 154) stands before the \<^verbatim>\<open>try\<close> of line 173: with a
  collaborator that raises, the exception reaches the caller and no request is sent.
\<close>

theorem handle_weather_extractor_raises:
  "fst (handle_weather failing_extractor_env ''Will it rain in Pune tomorrow?'')
     = Inl (OtherException ''model unavailable'')"
  by code_simp

text \<open>
  C1 as amended: an exception of \<^verbatim>\<open>extract_location\<close> leaves \<^verbatim>\<open>handle_weather\<close> as it
  is; when \<^verbatim>\<open>extract_location\<close> returns a string, \<^verbatim>\<open>handle_weather\<close> returns a string;
  and an exception that leaves \<^verbatim>\<open>fetch_weather\<close> is caught by \<^verbatim>\<open>handle_weather\<close> and
  answered with "An error occurred while fetching the weather. Please try again later.".
\<close>

theorem handle_weather_exceptions:
  "(extract_location E user_input = Inl e \<longrightarrow> handle_weather E user_input = (Inl e, []))
   \<and> (extract_location E user_input = Inr raw_location \<longrightarrow>
        (\<exists>message urls. handle_weather E user_input = (Inr message, urls)))
   \<and> (extract_location E user_input = Inr raw_location
        \<and> sanitize (unicode_data E) raw_location \<noteq> []
        \<and> fetch_weather E (sanitize (unicode_data E) raw_location)
              (snd (parse_weather_input (unicode_data E) user_input)) = (Inl e', urls)
        \<longrightarrow> handle_weather E user_input = (Inr generic_error_message, urls))"
  by (auto simp: handle_weather_def io_bind_def io_of_def io_return_def Let_def
           split: sum.splits prod.splits)

theorem handle_weather_exceptions_witness:
  "extract_location failing_extractor_env ''Will it rain in Pune tomorrow?''
       = Inl (OtherException ''model unavailable'')
   \<and> handle_weather failing_extractor_env ''Will it rain in Pune tomorrow?''
       = (Inl (OtherException ''model unavailable''), [])
   \<and> extract_location (sample_env ''Pune'' (JObj pune_results) (JObj [(''current_weather'', JObj [])]))
         ''weather in Pune'' = Inr ''Pune''
   \<and> (\<exists>message urls.
         handle_weather (sample_env ''Pune'' (JObj pune_results) (JObj [(''current_weather'', JObj [])]))
           ''weather in Pune'' = (Inr message, urls))
   \<and> sanitize sample_unicode ''Pune'' \<noteq> []
   \<and> fetch_weather (sample_env ''Pune'' (JObj pune_results) (JObj [(''current_weather'', JObj [])]))
         (sanitize sample_unicode ''Pune'') (snd (parse_weather_input sample_unicode ''weather in Pune''))
       = (Inl (KeyError ''temperature''),
          [geocode_url ''Pune'',
           weather_url (sample_env ''Pune'' (JObj pune_results) (JObj [(''current_weather'', JObj [])]))
             (JFloat (Finite (37 / 2))) (JFloat (Finite (369 / 5))) False])
   \<and> handle_weather (sample_env ''Pune'' (JObj pune_results) (JObj [(''current_weather'', JObj [])]))
         ''weather in Pune''
       = (Inr generic_error_message,
          [geocode_url ''Pune'',
           weather_url (sample_env ''Pune'' (JObj pune_results) (JObj [(''current_weather'', JObj [])]))
             (JFloat (Finite (37 / 2))) (JFloat (Finite (369 / 5))) False])"
proof -
  let ?E = "sample_env ''Pune'' (JObj pune_results) (JObj [(''current_weather'', JObj [])])"
  have u: "unicode_data ?E = sample_unicode"
    by (simp add: sample_env_def)
  have a: "extract_location failing_extractor_env ''Will it rain in Pune tomorrow?''
       = Inl (OtherException ''model unavailable'')"
    by (simp add: failing_extractor_env_def)
  have b: "extract_location ?E ''weather in Pune'' = Inr ''Pune''"
    by (simp add: sample_env_def)
  have c: "sanitize sample_unicode ''Pune'' \<noteq> []"
    by code_simp
  have d: "fetch_weather ?E (sanitize sample_unicode ''Pune'')
         (snd (parse_weather_input sample_unicode ''weather in Pune''))
       = (Inl (KeyError ''temperature''),
          [geocode_url ''Pune'', weather_url ?E (JFloat (Finite (37 / 2))) (JFloat (Finite (369 / 5))) False])"
    by code_simp
  note t1 = handle_weather_exceptions [of failing_extractor_env "''Will it rain in Pune tomorrow?''"
      "OtherException ''model unavailable''"]
  note t2 = handle_weather_exceptions [of ?E "''weather in Pune''" _ "''Pune''"
      "KeyError ''temperature''", unfolded u]
  from t1 a have 1: "handle_weather failing_extractor_env ''Will it rain in Pune tomorrow?''
       = (Inl (OtherException ''model unavailable''), [])" by blast
  from t2 b have 2: "\<exists>message urls. handle_weather ?E ''weather in Pune'' = (Inr message, urls)"
    by blast
  from t2 b c d have 3: "handle_weather ?E ''weather in Pune''
       = (Inr generic_error_message,
          [geocode_url ''Pune'', weather_url ?E (JFloat (Finite (37 / 2))) (JFloat (Finite (369 / 5))) False])"
    by blast
  from a 1 b 2 c d 3 show ?thesis by blast
qed

subsection \<open>C2: the location when the regular expression matches\<close>

text \<open>
  C2 says that on a match the location is the captured group, trimmed and title-cased. In
  the source, \<^verbatim>\<open>location.strip().title()\<close> (line 204) stands under the \<^verbatim>\<open>else\<close> of line
  193 and does not run on a match: on "Weather in Pune" the group is "pune", trimmed and
  title-cased it is "Pune", and the function returns "pune". On the example of the
  docstring, "Will it rain in Pune tomorrow?", for which the docstring gives
  \<^verbatim>\<open>("Pune", True)\<close>, the match starts inside "rain" and the function returns
  "in pune tomorrow".
\<close>

theorem parse_weather_input_match_branch:
  "re_search_in (py_lower U ''Weather in Pune'') = Some ''pune''
   \<and> py_title U (py_strip ''pune'') = ''Pune''
   \<and> parse_weather_input U ''Weather in Pune'' = (''pune'', False)
   \<and> parse_weather_input U ''Will it rain in Pune tomorrow?'' = (''in pune tomorrow'', True)"
  by code_simp

subsection \<open>C3: an empty location after the clean-up\<close>

text \<open>
  C3: when the location that \<^verbatim>\<open>extract_location\<close> returns is empty after the clean-up,
  \<^verbatim>\<open>handle_weather\<close> returns the message that asks to rephrase, and the list of the
  requests it sent is empty: neither the geocoding nor the forecast service is called.
\<close>

theorem handle_weather_clarification:
  assumes "extract_location E user_input = Inr raw_location"
    and "sanitize (unicode_data E) raw_location = []"
  shows "handle_weather E user_input = (Inr clarification_message, [])"
  using assms by (simp add: handle_weather_def io_bind_def io_of_def io_return_def)

text \<open>
  Two answers of the extractor that the clean-up empties: one that holds keywords and
  spaces only, and one that is the no-break space U+00A0 alone, which \<^verbatim>\<open>strip\<close> removes.
\<close>

theorem handle_weather_clarification_witness:
  "extract_location (sample_env ''What is the weather today'' (JObj pune_results) (JObj pune_forecast))
       ''What is the weather today'' = Inr ''What is the weather today''
   \<and> sanitize sample_unicode ''What is the weather today'' = []
   \<and> handle_weather (sample_env ''What is the weather today'' (JObj pune_results) (JObj pune_forecast))
       ''What is the weather today'' = (Inr clarification_message, [])
   \<and> extract_location (sample_env [CHR 0xC2, CHR 0xA0] (JObj pune_results) (JObj pune_forecast))
       ''How is it outside?'' = Inr [CHR 0xC2, CHR 0xA0]
   \<and> sanitize sample_unicode [CHR 0xC2, CHR 0xA0] = []
   \<and> handle_weather (sample_env [CHR 0xC2, CHR 0xA0] (JObj pune_results) (JObj pune_forecast))
       ''How is it outside?'' = (Inr clarification_message, [])"
proof -
  let ?A = "sample_env ''What is the weather today'' (JObj pune_results) (JObj pune_forecast)"
  let ?B = "sample_env [CHR 0xC2, CHR 0xA0] (JObj pune_results) (JObj pune_forecast)"
  have u: "unicode_data ?A = sample_unicode" "unicode_data ?B = sample_unicode"
    by (simp_all add: sample_env_def)
  have e: "extract_location ?A ''What is the weather today'' = Inr ''What is the weather today''"
    by (simp add: sample_env_def)
  have s: "sanitize sample_unicode ''What is the weather today'' = []"
    by code_simp
  have f: "extract_location ?B ''How is it outside?'' = Inr [CHR 0xC2, CHR 0xA0]"
    by (simp add: sample_env_def)
  have t: "sanitize sample_unicode [CHR 0xC2, CHR 0xA0] = []"
    by code_simp
  from handle_weather_clarification [OF e, unfolded u, OF s]
    handle_weather_clarification [OF f, unfolded u, OF t] e s f t
  show ?thesis by blast
qed

subsection \<open>C4: the forecast for Pune\<close>

text \<open>
  C4: on the input "Will it rain in Pune tomorrow?", when the geocoding reply has a first
  result named Pune and the daily arrays of the forecast reply hold 31, 22 and the code 61
  at index 1, \<^verbatim>\<open>handle_weather\<close> returns the sentence of the spec, built from index 1 of
  each array. The two collaborators outside the sources are assumed to do what the spec
  says of them: \<^verbatim>\<open>extract_location\<close> returns a string whose clean-up is the (non-empty)
  location that is geocoded, and the imported \<^verbatim>\<open>weather_description_fetcher\<close> maps the
  code 61 to "Slight rain".
\<close>

theorem pune_tomorrow_end_to_end:
  assumes "extract_location E ''Will it rain in Pune tomorrow?'' = Inr raw_location"
    and "sanitize (unicode_data E) raw_location = location" and "location \<noteq> []"
    and "replies E (geocode_url location) (JObj geocode_data)"
    and "map_of geocode_data ''results'' = Some (JArr (JObj first # others))"
    and "map_of first ''latitude'' = Some latitude"
    and "map_of first ''longitude'' = Some longitude"
    and "map_of first ''name'' = Some (JStr ''Pune'')"
    and "replies E (weather_url E latitude longitude True) (JObj weather_data)"
    and "map_of weather_data ''daily'' = Some (JObj daily)"
    and "map_of daily ''temperature_2m_max'' = Some (JArr (max_today # JInt 31 # max_rest))"
    and "map_of daily ''temperature_2m_min'' = Some (JArr (min_today # JInt 22 # min_rest))"
    and "map_of daily ''weathercode'' = Some (JArr (code_today # JInt 61 # code_rest))"
    and "weather_description_fetcher E (JInt 61) = Inr ''Slight rain''"
  shows "handle_weather E ''Will it rain in Pune tomorrow?'' =
           (Inr (''The weather in Pune tomorrow will be Slight rain, with a high of 31''
                   @ degree_sign @ ''C and a low of 22'' @ degree_sign @ ''C.''),
            [geocode_url location, weather_url E latitude longitude True])"
proof -
  have forecast: "fetch_forecast E latitude longitude (JStr ''Pune'') True =
      (Inr (tomorrow_message E (JStr ''Pune'') ''Slight rain'' (JInt 31) (JInt 22)),
       [weather_url E latitude longitude True])"
    using assms(9-14) by (rule fetch_forecast_tomorrow)
  have "fetch_weather_try E location True =
      (Inr (tomorrow_message E (JStr ''Pune'') ''Slight rain'' (JInt 31) (JInt 22)),
       [geocode_url location, weather_url E latitude longitude True])"
    using fetch_weather_try_geocoded [OF assms(4-8), of True] forecast by simp
  then have "fetch_weather E location True =
      (Inr (tomorrow_message E (JStr ''Pune'') ''Slight rain'' (JInt 31) (JInt 22)),
       [geocode_url location, weather_url E latitude longitude True])"
    by (simp add: fetch_weather_def except_RequestException_def)
  moreover have "tomorrow_message E (JStr ''Pune'') ''Slight rain'' (JInt 31) (JInt 22) =
      ''The weather in Pune tomorrow will be Slight rain, with a high of 31''
        @ degree_sign @ ''C and a low of 22'' @ degree_sign @ ''C.''"
    by (simp add: tomorrow_message_def str_int_31 str_int_22)
  ultimately show ?thesis
    using assms(1-3)
    by (simp add: handle_weather_def will_it_rain_is_tomorrow io_bind_def io_of_def)
qed

theorem pune_tomorrow_end_to_end_witness:
  "extract_location (sample_env ''Pune'' (JObj pune_results) (JObj pune_forecast))
       ''Will it rain in Pune tomorrow?'' = Inr ''Pune''
   \<and> sanitize sample_unicode ''Pune'' = ''Pune''
   \<and> replies (sample_env ''Pune'' (JObj pune_results) (JObj pune_forecast))
         (geocode_url ''Pune'') (JObj pune_results)
   \<and> replies (sample_env ''Pune'' (JObj pune_results) (JObj pune_forecast))
         ''https://api.open-meteo.com/v1/forecast?latitude=18.5&longitude=73.8&daily=temperature_2m_max,temperature_2m_min,weathercode&timezone=auto''
         (JObj pune_forecast)
   \<and> weather_description_fetcher (sample_env ''Pune'' (JObj pune_results) (JObj pune_forecast))
         (JInt 61) = Inr ''Slight rain''
   \<and> handle_weather (sample_env ''Pune'' (JObj pune_results) (JObj pune_forecast))
         ''Will it rain in Pune tomorrow?'' =
       (Inr (''The weather in Pune tomorrow will be Slight rain, with a high of 31''
               @ [CHR 0xC2, CHR 0xB0] @ ''C and a low of 22'' @ [CHR 0xC2, CHR 0xB0] @ ''C.''),
        [''https://geocoding-api.open-meteo.com/v1/search?name=Pune'',
         ''https://api.open-meteo.com/v1/forecast?latitude=18.5&longitude=73.8&daily=temperature_2m_max,temperature_2m_min,weathercode&timezone=auto''])"
proof -
  let ?E = "sample_env ''Pune'' (JObj pune_results) (JObj pune_forecast)"
  let ?lat = "JFloat (Finite (37 / 2))"
  let ?lon = "JFloat (Finite (369 / 5))"
  have u: "weather_url ?E ?lat ?lon True =
      ''https://api.open-meteo.com/v1/forecast?latitude=18.5&longitude=73.8&daily=temperature_2m_max,temperature_2m_min,weathercode&timezone=auto''"
    by code_simp
  have g: "geocode_url ''Pune'' = ''https://geocoding-api.open-meteo.com/v1/search?name=Pune''"
    by code_simp
  have h1: "extract_location ?E ''Will it rain in Pune tomorrow?'' = Inr ''Pune''"
    by (simp add: sample_env_def)
  have h2: "sanitize (unicode_data ?E) ''Pune'' = ''Pune''" by code_simp
  have h2': "sanitize sample_unicode ''Pune'' = ''Pune''" by code_simp
  have h3: "''Pune'' \<noteq> []" by simp
  have h4: "replies ?E (geocode_url ''Pune'') (JObj pune_results)" by code_simp
  have h5: "map_of pune_results ''results'' = Some (JArr (JObj pune_first #
      [JObj [(''name'', JStr ''Pune Station''), (''latitude'', JInt 18), (''longitude'', JInt 73)]]))"
    by (simp add: pune_results_def)
  have h6: "map_of pune_first ''latitude'' = Some ?lat" by (simp add: pune_first_def)
  have h7: "map_of pune_first ''longitude'' = Some ?lon" by (simp add: pune_first_def)
  have h8: "map_of pune_first ''name'' = Some (JStr ''Pune'')" by (simp add: pune_first_def)
  have h9: "replies ?E (weather_url ?E ?lat ?lon True) (JObj pune_forecast)" by code_simp
  have h10: "map_of pune_forecast ''daily'' = Some (JObj pune_daily)" by (simp add: pune_forecast_def)
  have h11: "map_of pune_daily ''temperature_2m_max'' = Some (JArr (JInt 30 # JInt 31 # [JInt 29]))"
    by (simp add: pune_daily_def)
  have h12: "map_of pune_daily ''temperature_2m_min'' = Some (JArr (JInt 21 # JInt 22 # [JInt 20]))"
    by (simp add: pune_daily_def)
  have h13: "map_of pune_daily ''weathercode'' = Some (JArr (JInt 3 # JInt 61 # [JInt 0]))"
    by (simp add: pune_daily_def)
  have h14: "weather_description_fetcher ?E (JInt 61) = Inr ''Slight rain''" by code_simp
  note r = pune_tomorrow_end_to_end [OF h1 h2 h3 h4 h5 h6 h7 h8 h9 h10 h11 h12 h13 h14]
  have "handle_weather ?E ''Will it rain in Pune tomorrow?'' =
       (Inr (''The weather in Pune tomorrow will be Slight rain, with a high of 31''
               @ [CHR 0xC2, CHR 0xB0] @ ''C and a low of 22'' @ [CHR 0xC2, CHR 0xB0] @ ''C.''),
        [''https://geocoding-api.open-meteo.com/v1/search?name=Pune'',
         ''https://api.open-meteo.com/v1/forecast?latitude=18.5&longitude=73.8&daily=temperature_2m_max,temperature_2m_min,weathercode&timezone=auto''])"
    using r unfolding u g degree_sign_def .
  with h1 h2' h4 h9 h14 show ?thesis unfolding u by blast
qed

subsection \<open>C5: the clean-up of the location\<close>

text \<open>
  C5: the clean-up lowercases what \<^verbatim>\<open>extract_location\<close> returned, removes the
  occurrences of the fifteen keywords, wherever they stand in the string, trims the result
  and title-cases it; "What is the weather in Pune" becomes "Pune". The keywords are
  removed one after the other in the order of the list, each from the string that the
  keywords before it left (\<^const>\<open>removed_in_turn\<close>), and the string so described is the
  only one. In its turn a keyword is removed at every place where it occurs: whatever
  stands before and after an occurrence, the occurrence goes and the two sides are
  treated on their own.
\<close>

theorem sanitize_removes_stoplist:
  "sanitize_keywords =
     [''weather'', ''forecast'', ''tomorrow'', ''today'', ''is it'', ''will it'', ''rain'',
      ''sunny'', ''in'', ''be'', ''outside'', ''what'', ''is'', ''the'', ''of'']
   \<and> (\<exists>t. removed_in_turn sanitize_keywords (py_lower U raw_location) t
          \<and> sanitize U raw_location = py_title U (py_strip t))
   \<and> (\<forall>t. removed_in_turn sanitize_keywords (py_lower U raw_location) t
          \<longrightarrow> sanitize U raw_location = py_title U (py_strip t))
   \<and> (\<forall>k \<in> set sanitize_keywords. \<forall>p r.
          py_replace (p @ k @ r) k [] = py_replace p k [] @ py_replace r k [])
   \<and> sanitize U ''What is the weather in Pune'' = ''Pune''"
proof (intro conjI allI impI ballI)
  show "sanitize_keywords =
     [''weather'', ''forecast'', ''tomorrow'', ''today'', ''is it'', ''will it'', ''rain'',
      ''sunny'', ''in'', ''be'', ''outside'', ''what'', ''is'', ''the'', ''of'']"
    by (simp add: sanitize_keywords_def)
next
  have "removed_in_turn sanitize_keywords (py_lower U raw_location)
          (remove_keywords sanitize_keywords (py_lower U raw_location))"
    using removed_in_turn_iff [OF sanitize_keywords_nonempty] by simp
  then show "\<exists>t. removed_in_turn sanitize_keywords (py_lower U raw_location) t
          \<and> sanitize U raw_location = py_title U (py_strip t)"
    by (auto simp: sanitize_def)
next
  fix t assume "removed_in_turn sanitize_keywords (py_lower U raw_location) t"
  then have "t = remove_keywords sanitize_keywords (py_lower U raw_location)"
    using removed_in_turn_iff [OF sanitize_keywords_nonempty] by simp
  then show "sanitize U raw_location = py_title U (py_strip t)"
    by (simp add: sanitize_def)
next
  fix k p r assume "k \<in> set sanitize_keywords"
  then show "py_replace (p @ k @ r) k [] = py_replace p k [] @ py_replace r k []"
    by (rule py_replace_every_occurrence)
next
  show "sanitize U ''What is the weather in Pune'' = ''Pune''"
    by code_simp
qed

text \<open>
  With the sample tables, which are Python's up to U+00FF: "Berlin" becomes "Rl" (the
  keywords are removed inside words too), the sentence of the spec becomes "Pune", and the
  letters outside ASCII are lowercased, counted as cased and title-cased as Python does:
  the German name of Munich, with its u umlaut (C3 BC), stays as it is, "SAO PAULO" with
  a tilde on the A (C3 83) becomes "Sao Paulo" with the tilde on the a (C3 A3), and a
  location between two no-break spaces is trimmed.
\<close>

theorem sanitize_removes_stoplist_witness:
  "removed_in_turn sanitize_keywords (py_lower sample_unicode ''Berlin'') ''rl''
   \<and> sanitize sample_unicode ''Berlin'' = py_title sample_unicode (py_strip ''rl'')
   \<and> py_title sample_unicode (py_strip ''rl'') = ''Rl''
   \<and> removed_in_turn sanitize_keywords
        (py_lower sample_unicode ''What is the weather in Pune'') ''     pune''
   \<and> sanitize sample_unicode ''What is the weather in Pune''
        = py_title sample_unicode (py_strip ''     pune'')
   \<and> sanitize sample_unicode ''What is the weather in Pune'' = ''Pune''
   \<and> removed_in_turn sanitize_keywords
        (py_lower sample_unicode (''S'' @ [CHR 0xC3, CHR 0x83] @ ''O PAULO''))
        (''s'' @ [CHR 0xC3, CHR 0xA3] @ ''o paulo'')
   \<and> sanitize sample_unicode (''S'' @ [CHR 0xC3, CHR 0x83] @ ''O PAULO'')
        = ''S'' @ [CHR 0xC3, CHR 0xA3] @ ''o Paulo''
   \<and> sanitize sample_unicode (''M'' @ [CHR 0xC3, CHR 0xBC] @ ''nchen'')
        = ''M'' @ [CHR 0xC3, CHR 0xBC] @ ''nchen''
   \<and> sanitize sample_unicode ([CHR 0xC2, CHR 0xA0] @ ''weather in pune'' @ [CHR 0xC2, CHR 0xA0])
        = ''Pune''
   \<and> ''in'' \<in> set sanitize_keywords
   \<and> py_replace (''pa'' @ ''in'' @ ''ting'') ''in'' []
        = py_replace ''pa'' ''in'' [] @ py_replace ''ting'' ''in'' []
   \<and> py_replace ''pa'' ''in'' [] @ py_replace ''ting'' ''in'' [] = ''patg''"
proof -
  let ?sao = "''S'' @ [CHR 0xC3, CHR 0x83] @ ''O PAULO''"
  have a: "remove_keywords sanitize_keywords (py_lower sample_unicode ''Berlin'') = ''rl''"
    by code_simp
  have b: "remove_keywords sanitize_keywords
      (py_lower sample_unicode ''What is the weather in Pune'') = ''     pune''"
    by code_simp
  have c: "remove_keywords sanitize_keywords (py_lower sample_unicode ?sao)
      = ''s'' @ [CHR 0xC3, CHR 0xA3] @ ''o paulo''"
    by code_simp
  have ra: "removed_in_turn sanitize_keywords (py_lower sample_unicode ''Berlin'') ''rl''"
    using removed_in_turn_iff [OF sanitize_keywords_nonempty] a by simp
  have rb: "removed_in_turn sanitize_keywords
      (py_lower sample_unicode ''What is the weather in Pune'') ''     pune''"
    using removed_in_turn_iff [OF sanitize_keywords_nonempty] b by simp
  have rc: "removed_in_turn sanitize_keywords (py_lower sample_unicode ?sao)
      (''s'' @ [CHR 0xC3, CHR 0xA3] @ ''o paulo'')"
    using removed_in_turn_iff [OF sanitize_keywords_nonempty] c by simp
  have t: "py_title sample_unicode (py_strip ''rl'') = ''Rl''"
    "py_title sample_unicode (py_strip (''s'' @ [CHR 0xC3, CHR 0xA3] @ ''o paulo''))
       = ''S'' @ [CHR 0xC3, CHR 0xA3] @ ''o Paulo''"
    by code_simp+
  have m: "sanitize sample_unicode (''M'' @ [CHR 0xC3, CHR 0xBC] @ ''nchen'')
      = ''M'' @ [CHR 0xC3, CHR 0xBC] @ ''nchen''"
    "sanitize sample_unicode ([CHR 0xC2, CHR 0xA0] @ ''weather in pune'' @ [CHR 0xC2, CHR 0xA0])
      = ''Pune''"
    by code_simp+
  note inst = sanitize_removes_stoplist [where U = sample_unicode]
  from inst [of "''Berlin''"] ra
  have 1: "sanitize sample_unicode ''Berlin'' = py_title sample_unicode (py_strip ''rl'')"
    by blast
  from inst [of "''What is the weather in Pune''"] rb
  have 2: "sanitize sample_unicode ''What is the weather in Pune''
      = py_title sample_unicode (py_strip ''     pune'')" by blast
  from inst [of "''Berlin''"]
  have 3: "sanitize sample_unicode ''What is the weather in Pune'' = ''Pune''" by blast
  from inst [of ?sao] rc
  have "sanitize sample_unicode ?sao
      = py_title sample_unicode (py_strip (''s'' @ [CHR 0xC3, CHR 0xA3] @ ''o paulo''))" by blast
  then have 4: "sanitize sample_unicode ?sao = ''S'' @ [CHR 0xC3, CHR 0xA3] @ ''o Paulo''"
    unfolding t(2) .
  have k: "''in'' \<in> set sanitize_keywords"
    by (simp add: sanitize_keywords_def)
  from inst [of "''Berlin''"] k
  have 5: "py_replace (''pa'' @ ''in'' @ ''ting'') ''in'' []
      = py_replace ''pa'' ''in'' [] @ py_replace ''ting'' ''in'' []" by blast
  have 6: "py_replace ''pa'' ''in'' [] @ py_replace ''ting'' ''in'' [] = ''patg''"
    by code_simp
  from ra 1 t(1) rb 2 3 rc 4 m k 5 6 show ?thesis by blast
qed

subsection \<open>C6: a geocoding reply without results\<close>

text \<open>
  C6: when the geocoding reply is an object without the key "results", or with an empty
  array under it, \<^verbatim>\<open>fetch_weather\<close> returns the message that no weather details were
  found for the location, and the geocoding request is the only request. When the array
  has a first entry with a latitude, a longitude and a name, these three are what the rest
  of \<^verbatim>\<open>fetch_weather\<close> works with: the second request goes to the forecast URL of this
  latitude and longitude, and the other entries have no part in the answer.
\<close>

theorem fetch_weather_no_results:
  "(replies E (geocode_url location) (JObj geocode_data)
      \<and> (map_of geocode_data ''results'' = None \<or> map_of geocode_data ''results'' = Some (JArr []))
    \<longrightarrow> fetch_weather E location is_tomorrow =
          (Inr (not_found_message location), [geocode_url location]))
   \<and> (replies E (geocode_url location) (JObj geocode_data)
      \<and> map_of geocode_data ''results'' = Some (JArr (JObj first # others))
      \<and> map_of first ''latitude'' = Some latitude
      \<and> map_of first ''longitude'' = Some longitude
      \<and> map_of first ''name'' = Some location_name
    \<longrightarrow> fetch_weather E location is_tomorrow =
          except_RequestException
            (case fetch_forecast E latitude longitude location_name is_tomorrow of
               (r, urls) \<Rightarrow> (r, geocode_url location # urls))
        \<and> snd (fetch_weather E location is_tomorrow) =
            [geocode_url location, weather_url E latitude longitude is_tomorrow])"
proof (intro conjI impI)
  assume "replies E (geocode_url location) (JObj geocode_data)
      \<and> (map_of geocode_data ''results'' = None \<or> map_of geocode_data ''results'' = Some (JArr []))"
  then have "fetch_weather_try E location is_tomorrow =
      (Inr (not_found_message location), [geocode_url location])"
    by (intro fetch_weather_try_no_results) auto
  then show "fetch_weather E location is_tomorrow =
          (Inr (not_found_message location), [geocode_url location])"
    by (simp add: fetch_weather_def except_RequestException_def)
next
  assume h: "replies E (geocode_url location) (JObj geocode_data)
      \<and> map_of geocode_data ''results'' = Some (JArr (JObj first # others))
      \<and> map_of first ''latitude'' = Some latitude
      \<and> map_of first ''longitude'' = Some longitude
      \<and> map_of first ''name'' = Some location_name"
  then have t: "fetch_weather_try E location is_tomorrow =
      (case fetch_forecast E latitude longitude location_name is_tomorrow of
         (r, urls) \<Rightarrow> (r, geocode_url location # urls))"
    by (intro fetch_weather_try_geocoded) auto
  then show "fetch_weather E location is_tomorrow =
          except_RequestException
            (case fetch_forecast E latitude longitude location_name is_tomorrow of
               (r, urls) \<Rightarrow> (r, geocode_url location # urls))"
    by (simp add: fetch_weather_def)
  have "snd (fetch_weather_try E location is_tomorrow) =
      geocode_url location # snd (fetch_forecast E latitude longitude location_name is_tomorrow)"
    unfolding t by (simp split: prod.splits)
  then show "snd (fetch_weather E location is_tomorrow) =
            [geocode_url location, weather_url E latitude longitude is_tomorrow]"
    by (simp add: fetch_weather_def snd_except_RequestException snd_fetch_forecast)
qed

theorem fetch_weather_no_results_witness:
  "replies (sample_env ''Pune'' (JObj []) (JObj pune_forecast)) (geocode_url ''Pune'') (JObj [])
   \<and> map_of ([] :: (string \<times> json) list) ''results'' = None
   \<and> fetch_weather (sample_env ''Pune'' (JObj []) (JObj pune_forecast)) ''Pune'' True =
        (Inr ''Sorry, I couldn't find weather details for 'Pune'. Please try the same or another location.'',
         [''https://geocoding-api.open-meteo.com/v1/search?name=Pune''])
   \<and> replies (sample_env ''Pune'' (JObj [(''results'', JArr [])]) (JObj pune_forecast))
         (geocode_url ''Pune'') (JObj [(''results'', JArr [])])
   \<and> map_of [(''results'', JArr [])] ''results'' = Some (JArr [])
   \<and> fetch_weather (sample_env ''Pune'' (JObj [(''results'', JArr [])]) (JObj pune_forecast)) ''Pune'' False =
        (Inr ''Sorry, I couldn't find weather details for 'Pune'. Please try the same or another location.'',
         [''https://geocoding-api.open-meteo.com/v1/search?name=Pune''])
   \<and> replies (sample_env ''Pune'' (JObj pune_results) (JObj pune_forecast))
         (geocode_url ''Pune'') (JObj pune_results)
   \<and> snd (fetch_weather (sample_env ''Pune'' (JObj pune_results) (JObj pune_forecast)) ''Pune'' True) =
        [''https://geocoding-api.open-meteo.com/v1/search?name=Pune'',
         ''https://api.open-meteo.com/v1/forecast?latitude=18.5&longitude=73.8&daily=temperature_2m_max,temperature_2m_min,weathercode&timezone=auto'']"
proof -
  let ?A = "sample_env ''Pune'' (JObj []) (JObj pune_forecast)"
  let ?B = "sample_env ''Pune'' (JObj [(''results'', JArr [])]) (JObj pune_forecast)"
  let ?C = "sample_env ''Pune'' (JObj pune_results) (JObj pune_forecast)"
  have g: "geocode_url ''Pune'' = ''https://geocoding-api.open-meteo.com/v1/search?name=Pune''"
    by (simp add: geocode_url_def)
  have m: "not_found_message ''Pune'' =
      ''Sorry, I couldn't find weather details for 'Pune'. Please try the same or another location.''"
    by (simp add: not_found_message_def)
  have a1: "replies ?A (geocode_url ''Pune'') (JObj [])" by (rule sample_replies_geocode)
  have a2: "map_of ([] :: (string \<times> json) list) ''results'' = None" by simp
  have b1: "replies ?B (geocode_url ''Pune'') (JObj [(''results'', JArr [])])"
    by (rule sample_replies_geocode)
  have b2: "map_of [(''results'', JArr [])] ''results'' = Some (JArr [])" by simp
  have c1: "replies ?C (geocode_url ''Pune'') (JObj pune_results)" by (rule sample_replies_geocode)
  from fetch_weather_no_results [where E = ?A and location = "''Pune''" and geocode_data = "[]"
      and is_tomorrow = True] a1 a2
  have 1: "fetch_weather ?A ''Pune'' True = (Inr (not_found_message ''Pune''), [geocode_url ''Pune''])"
    by blast
  from fetch_weather_no_results [where E = ?B and location = "''Pune''"
      and geocode_data = "[(''results'', JArr [])]" and is_tomorrow = False] b1 b2
  have 2: "fetch_weather ?B ''Pune'' False = (Inr (not_found_message ''Pune''), [geocode_url ''Pune''])"
    by blast
  from fetch_weather_no_results [where E = ?C and location = "''Pune''"
      and geocode_data = pune_results and first = pune_first
      and latitude = "JFloat (Finite (37 / 2))" and longitude = "JFloat (Finite (369 / 5))"
      and location_name = "JStr ''Pune''" and is_tomorrow = True]
    c1 pune_results_first pune_first_fields
  have 3: "snd (fetch_weather ?C ''Pune'' True) =
      [geocode_url ''Pune'', weather_url ?C (JFloat (Finite (37 / 2))) (JFloat (Finite (369 / 5))) True]"
    by blast
  from a1 a2 1 b1 b2 2 c1 3 show ?thesis
    unfolding g m sample_weather_url_tomorrow by blast
qed

subsection \<open>C7: the condition table of the class\<close>

text \<open>
  C7: \<^verbatim>\<open>WeatherModule.weather_description_fetcher\<close> returns, for every code of its table,
  the description the table gives, and "Unknown conditions" for every integer that is not
  a key of the table.
\<close>

theorem weather_description_fetcher_table:
  "(\<forall>(code, description) \<in> set weather_conditions.
       WeatherModule_weather_description_fetcher code = description)
   \<and> (\<forall>code. code \<notin> fst ` set weather_conditions \<longrightarrow>
         WeatherModule_weather_description_fetcher code = ''Unknown conditions'')"
proof (intro conjI ballI allI impI)
  fix p assume mem: "p \<in> set weather_conditions"
  obtain c d where p: "p = (c, d)" by (cases p)
  from mem p have "map_of weather_conditions c = Some d"
    using distinct_weather_conditions by simp
  then show "case p of (code, description) \<Rightarrow> WeatherModule_weather_description_fetcher code = description"
    by (simp add: p WeatherModule_weather_description_fetcher_def)
next
  fix code :: int assume "code \<notin> fst ` set weather_conditions"
  then have "map_of weather_conditions code = None"
    by (simp add: map_of_eq_None_iff)
  then show "WeatherModule_weather_description_fetcher code = ''Unknown conditions''"
    by (simp add: WeatherModule_weather_description_fetcher_def)
qed

theorem weather_description_fetcher_table_witness:
  "(61, ''Slight rain'') \<in> set weather_conditions
   \<and> WeatherModule_weather_description_fetcher 61 = ''Slight rain''
   \<and> (4 :: int) \<notin> fst ` set weather_conditions
   \<and> WeatherModule_weather_description_fetcher 4 = ''Unknown conditions''"
proof -
  have m: "(61, ''Slight rain'') \<in> set weather_conditions"
    by (simp add: weather_conditions_def)
  have n: "(4 :: int) \<notin> fst ` set weather_conditions"
    by (simp add: weather_conditions_def)
  from weather_description_fetcher_table m
  have "WeatherModule_weather_description_fetcher 61 = ''Slight rain''" by fast
  moreover from weather_description_fetcher_table n
  have "WeatherModule_weather_description_fetcher 4 = ''Unknown conditions''" by fast
  ultimately show ?thesis using m n by blast
qed

subsection \<open>C8: the flag for tomorrow\<close>

text \<open>
  C8: the flag that \<^verbatim>\<open>parse_weather_input\<close> returns is true exactly when the lowercased
  input contains "tomorrow" or "next day" as a substring, that is, when it is of the form
  \<open>ps @ ''tomorrow'' @ ss\<close> or \<open>ps @ ''next day'' @ ss\<close> (this is \<^const>\<open>sublist\<close>).
\<close>

theorem parse_weather_input_is_tomorrow:
  "snd (parse_weather_input U user_input) =
     (sublist ''tomorrow'' (py_lower U user_input) \<or> sublist ''next day'' (py_lower U user_input))"
  by (simp add: parse_weather_input_def Let_def py_in_sublist)

subsection \<open>C9: the sentence for the current conditions\<close>

text \<open>
  C9: when the geocoding reply has a first entry and the forecast reply has the block
  "current_weather" with a temperature that is a number \<open>t\<close> and a windspeed,
  \<^verbatim>\<open>fetch_weather\<close> returns the sentence "The current weather in \<dots> is \<dots> with a
  temperature of \<dots> C (\<dots>) and a windspeed of \<dots> km/h.", where the class is "hot" when
  \<open>30 < t\<close>, "cold" when \<open>t < 15\<close> and "moderate" otherwise.
\<close>

theorem current_conditions_message:
  assumes "replies E (geocode_url location) (JObj geocode_data)"
    and "map_of geocode_data ''results'' = Some (JArr (JObj first # others))"
    and "map_of first ''latitude'' = Some latitude"
    and "map_of first ''longitude'' = Some longitude"
    and "map_of first ''name'' = Some location_name"
    and "replies E (weather_url E latitude longitude False) (JObj weather_data)"
    and "map_of weather_data ''current_weather'' = Some (JObj current_weather)"
    and "map_of current_weather ''temperature'' = Some temperature"
    and "map_of current_weather ''windspeed'' = Some windspeed"
    and "weather_description_fetcher E
           (case map_of current_weather ''weathercode'' of None \<Rightarrow> JInt (- 1) | Some c \<Rightarrow> c)
         = Inr description"
    and "number_of temperature = Some t"
  shows "fetch_weather E location False =
           (Inr (''The current weather in '' @ py_str E location_name @ '' is '' @ description
                   @ '' with a temperature of '' @ py_str E temperature @ degree_sign @ ''C (''
                   @ (if 30 < t then ''hot'' else if t < 15 then ''cold'' else ''moderate'')
                   @ '') and a windspeed of '' @ py_str E windspeed @ '' km/h.''),
            [geocode_url location, weather_url E latitude longitude False])"
proof -
  let ?cls = "if 30 < t then ''hot'' else if t < 15 then ''cold'' else ''moderate''"
  have "temperature_description temperature = Inr ?cls"
    using assms(11) by (rule temperature_description_number)
  from fetch_forecast_current [OF assms(6-10) this]
  have "fetch_forecast E latitude longitude location_name False =
      (Inr (current_message E location_name description temperature ?cls windspeed),
       [weather_url E latitude longitude False])" .
  with fetch_weather_try_geocoded [OF assms(1-5), of False]
  have "fetch_weather_try E location False =
      (Inr (current_message E location_name description temperature ?cls windspeed),
       [geocode_url location, weather_url E latitude longitude False])"
    by simp
  then show ?thesis
    by (simp add: fetch_weather_def except_RequestException_def current_message_def)
qed

theorem current_conditions_message_witness:
  "replies (sample_env ''Pune'' (JObj pune_results) (JObj (pune_conditions 32)))
       (geocode_url ''Pune'') (JObj pune_results)
   \<and> replies (sample_env ''Pune'' (JObj pune_results) (JObj (pune_conditions 32)))
       ''https://api.open-meteo.com/v1/forecast?latitude=18.5&longitude=73.8&current_weather=true''
       (JObj (pune_conditions 32))
   \<and> number_of (JInt 32) = Some 32
   \<and> fetch_weather (sample_env ''Pune'' (JObj pune_results) (JObj (pune_conditions 32))) ''Pune'' False =
        (Inr (''The current weather in Pune is Partly cloudy with a temperature of 32''
                @ [CHR 0xC2, CHR 0xB0] @ ''C (hot) and a windspeed of 12.2 km/h.''),
         [''https://geocoding-api.open-meteo.com/v1/search?name=Pune'',
          ''https://api.open-meteo.com/v1/forecast?latitude=18.5&longitude=73.8&current_weather=true''])
   \<and> fetch_weather (sample_env ''Pune'' (JObj pune_results) (JObj (pune_conditions 10))) ''Pune'' False =
        (Inr (''The current weather in Pune is Partly cloudy with a temperature of 10''
                @ [CHR 0xC2, CHR 0xB0] @ ''C (cold) and a windspeed of 12.2 km/h.''),
         [''https://geocoding-api.open-meteo.com/v1/search?name=Pune'',
          ''https://api.open-meteo.com/v1/forecast?latitude=18.5&longitude=73.8&current_weather=true''])
   \<and> fetch_weather (sample_env ''Pune'' (JObj pune_results) (JObj (pune_conditions 20))) ''Pune'' False =
        (Inr (''The current weather in Pune is Partly cloudy with a temperature of 20''
                @ [CHR 0xC2, CHR 0xB0] @ ''C (moderate) and a windspeed of 12.2 km/h.''),
         [''https://geocoding-api.open-meteo.com/v1/search?name=Pune'',
          ''https://api.open-meteo.com/v1/forecast?latitude=18.5&longitude=73.8&current_weather=true''])"
proof -
  let ?E = "\<lambda>n. sample_env ''Pune'' (JObj pune_results) (JObj (pune_conditions n))"
  let ?lat = "JFloat (Finite (37 / 2))"
  let ?lon = "JFloat (Finite (369 / 5))"
  have g: "geocode_url ''Pune'' = ''https://geocoding-api.open-meteo.com/v1/search?name=Pune''"
    by (simp add: geocode_url_def)
  have d: "weather_description_fetcher (?E n)
             (case map_of (pune_current n) ''weathercode'' of None \<Rightarrow> JInt (- 1) | Some c \<Rightarrow> c)
           = Inr ''Partly cloudy''" for n
    by (simp add: pune_current_def sample_env_def spec_weather_description_fetcher_def
          WeatherModule_weather_description_fetcher_def weather_conditions_def)
  have inst: "fetch_weather (?E n) ''Pune'' False =
      (Inr (''The current weather in '' @ py_str (?E n) (JStr ''Pune'') @ '' is '' @ ''Partly cloudy''
              @ '' with a temperature of '' @ py_str (?E n) (JInt n) @ degree_sign @ ''C (''
              @ (if 30 < (of_int n :: rat) then ''hot'' else if of_int n < (15 :: rat) then ''cold'' else ''moderate'')
              @ '') and a windspeed of '' @ py_str (?E n) (JFloat (Finite (61 / 5))) @ '' km/h.''),
       [geocode_url ''Pune'', weather_url (?E n) ?lat ?lon False])" for n
    by (rule current_conditions_message [where geocode_data = pune_results and first = pune_first
          and weather_data = "pune_conditions n" and current_weather = "pune_current n"])
       (simp_all add: sample_replies_geocode sample_replies_weather pune_results_first
          pune_first_fields d, simp_all add: pune_conditions_def pune_current_def)
  have w: "py_repr (?E n) (JFloat (Finite (61 / 5))) = ''12.2''" for n
    by (simp add: sample_env_def sample_repr_def)
  have s: "str_int 32 = ''32''" "str_int 10 = ''10''" "str_int 20 = ''20''"
    by code_simp+
  have 1: "replies (?E 32) (geocode_url ''Pune'') (JObj pune_results)"
    by (rule sample_replies_geocode)
  have 2: "replies (?E 32)
       ''https://api.open-meteo.com/v1/forecast?latitude=18.5&longitude=73.8&current_weather=true''
       (JObj (pune_conditions 32))"
    using sample_replies_weather [of "''Pune''" "JObj pune_results" "JObj (pune_conditions 32)" False]
    by (simp add: sample_weather_url)
  have 3: "number_of (JInt 32) = Some 32" by simp
  show ?thesis
    using 1 2 3 inst [of 32] inst [of 10] inst [of 20]
    by (simp add: g w s sample_weather_url degree_sign_def)
qed

subsection \<open>C10: where the condition description comes from\<close>

text \<open>
  C10: inside the methods the name \<^verbatim>\<open>weather_description_fetcher\<close> (lines 92 and 111) is
  the function imported from \<^verbatim>\<open>modules.utils\<close>, not the static method of the class, so
  the model of \<^verbatim>\<open>fetch_weather\<close> takes the description from the collaborator. On every
  path, an answer of \<^verbatim>\<open>fetch_weather\<close> or \<^verbatim>\<open>handle_weather\<close> is one of the fixed
  messages or a sentence whose description is a value that the imported function returned
  (\<^const>\<open>fetch_weather_answer\<close>). In the sentence for tomorrow the description is what
  the imported function returns for the code at index 1 of the daily codes, in the
  sentence for the current conditions what it returns for the code of the block (or for
  -1 when the block has none). With an imported function that answers "Sunny spells",
  both sentences say so for codes to which the table of the class gives another
  description.
\<close>

theorem description_comes_from_import:
  "(fetch_weather E location is_tomorrow = (Inr message, urls) \<longrightarrow> fetch_weather_answer E message)
   \<and> (handle_weather E user_input = (Inr message, urls) \<longrightarrow>
        message = clarification_message \<or> message = generic_error_message
        \<or> fetch_weather_answer E message)
   \<and> (replies E (geocode_url location) (JObj geocode_data)
      \<and> map_of geocode_data ''results'' = Some (JArr (JObj first # others))
      \<and> map_of first ''latitude'' = Some latitude
      \<and> map_of first ''longitude'' = Some longitude
      \<and> map_of first ''name'' = Some location_name
      \<and> replies E (weather_url E latitude longitude True) (JObj weather_data)
      \<and> map_of weather_data ''daily'' = Some (JObj daily)
      \<and> map_of daily ''temperature_2m_max'' = Some (JArr (max_today # temp_max # max_rest))
      \<and> map_of daily ''temperature_2m_min'' = Some (JArr (min_today # temp_min # min_rest))
      \<and> map_of daily ''weathercode'' = Some (JArr (code_today # weather_code # code_rest))
      \<and> weather_description_fetcher E weather_code = Inr description
      \<longrightarrow> fst (fetch_weather E location True) =
            Inr (tomorrow_message E location_name description temp_max temp_min))
   \<and> (replies E (geocode_url location) (JObj geocode_data)
      \<and> map_of geocode_data ''results'' = Some (JArr (JObj first # others))
      \<and> map_of first ''latitude'' = Some latitude
      \<and> map_of first ''longitude'' = Some longitude
      \<and> map_of first ''name'' = Some location_name
      \<and> replies E (weather_url E latitude longitude False) (JObj weather_data)
      \<and> map_of weather_data ''current_weather'' = Some (JObj current_weather)
      \<and> map_of current_weather ''temperature'' = Some temperature
      \<and> map_of current_weather ''windspeed'' = Some windspeed
      \<and> weather_description_fetcher E
            (case map_of current_weather ''weathercode'' of None \<Rightarrow> JInt (- 1) | Some c \<Rightarrow> c)
          = Inr description
      \<and> temperature_description temperature = Inr temperature_desc
      \<longrightarrow> fst (fetch_weather E location False) =
            Inr (current_message E location_name description temperature temperature_desc windspeed))"
proof (intro conjI impI)
  assume "fetch_weather E location is_tomorrow = (Inr message, urls)"
  then show "fetch_weather_answer E message" by (rule fetch_weather_answer_all)
next
  assume "handle_weather E user_input = (Inr message, urls)"
  then show "message = clarification_message \<or> message = generic_error_message
        \<or> fetch_weather_answer E message"
    by (auto simp: handle_weather_def io_bind_def io_of_def io_return_def Let_def
             split: sum.splits prod.splits if_splits
             dest: fetch_weather_answer_all)
next
  assume h: "replies E (geocode_url location) (JObj geocode_data)
      \<and> map_of geocode_data ''results'' = Some (JArr (JObj first # others))
      \<and> map_of first ''latitude'' = Some latitude
      \<and> map_of first ''longitude'' = Some longitude
      \<and> map_of first ''name'' = Some location_name
      \<and> replies E (weather_url E latitude longitude True) (JObj weather_data)
      \<and> map_of weather_data ''daily'' = Some (JObj daily)
      \<and> map_of daily ''temperature_2m_max'' = Some (JArr (max_today # temp_max # max_rest))
      \<and> map_of daily ''temperature_2m_min'' = Some (JArr (min_today # temp_min # min_rest))
      \<and> map_of daily ''weathercode'' = Some (JArr (code_today # weather_code # code_rest))
      \<and> weather_description_fetcher E weather_code = Inr description"
  then have "fetch_forecast E latitude longitude location_name True =
      (Inr (tomorrow_message E location_name description temp_max temp_min),
       [weather_url E latitude longitude True])"
    by (intro fetch_forecast_tomorrow) auto
  moreover from h have "fetch_weather_try E location True =
      (case fetch_forecast E latitude longitude location_name True of
         (r, urls) \<Rightarrow> (r, geocode_url location # urls))"
    by (intro fetch_weather_try_geocoded) auto
  ultimately show "fst (fetch_weather E location True) =
      Inr (tomorrow_message E location_name description temp_max temp_min)"
    by (simp add: fetch_weather_def except_RequestException_def)
next
  assume h: "replies E (geocode_url location) (JObj geocode_data)
      \<and> map_of geocode_data ''results'' = Some (JArr (JObj first # others))
      \<and> map_of first ''latitude'' = Some latitude
      \<and> map_of first ''longitude'' = Some longitude
      \<and> map_of first ''name'' = Some location_name
      \<and> replies E (weather_url E latitude longitude False) (JObj weather_data)
      \<and> map_of weather_data ''current_weather'' = Some (JObj current_weather)
      \<and> map_of current_weather ''temperature'' = Some temperature
      \<and> map_of current_weather ''windspeed'' = Some windspeed
      \<and> weather_description_fetcher E
            (case map_of current_weather ''weathercode'' of None \<Rightarrow> JInt (- 1) | Some c \<Rightarrow> c)
          = Inr description
      \<and> temperature_description temperature = Inr temperature_desc"
  then have "fetch_forecast E latitude longitude location_name False =
      (Inr (current_message E location_name description temperature temperature_desc windspeed),
       [weather_url E latitude longitude False])"
    by (intro fetch_forecast_current) auto
  moreover from h have "fetch_weather_try E location False =
      (case fetch_forecast E latitude longitude location_name False of
         (r, urls) \<Rightarrow> (r, geocode_url location # urls))"
    by (intro fetch_weather_try_geocoded) auto
  ultimately show "fst (fetch_weather E location False) =
      Inr (current_message E location_name description temperature temperature_desc windspeed)"
    by (simp add: fetch_weather_def except_RequestException_def)
qed

theorem description_comes_from_import_witness:
  "weather_description_fetcher (other_fetcher_env (JObj pune_forecast)) (JInt 61) = Inr ''Sunny spells''
   \<and> WeatherModule_weather_description_fetcher 61 = ''Slight rain''
   \<and> fst (fetch_weather (other_fetcher_env (JObj pune_forecast)) ''Pune'' True) =
       Inr (''The weather in Pune tomorrow will be Sunny spells, with a high of 31''
              @ [CHR 0xC2, CHR 0xB0] @ ''C and a low of 22'' @ [CHR 0xC2, CHR 0xB0] @ ''C.'')
   \<and> fetch_weather_answer (other_fetcher_env (JObj pune_forecast))
        (''The weather in Pune tomorrow will be Sunny spells, with a high of 31''
           @ [CHR 0xC2, CHR 0xB0] @ ''C and a low of 22'' @ [CHR 0xC2, CHR 0xB0] @ ''C.'')
   \<and> weather_description_fetcher (other_fetcher_env (JObj (pune_conditions 20))) (JInt 2) = Inr ''Sunny spells''
   \<and> WeatherModule_weather_description_fetcher 2 = ''Partly cloudy''
   \<and> fst (fetch_weather (other_fetcher_env (JObj (pune_conditions 20))) ''Pune'' False) =
       Inr (''The current weather in Pune is Sunny spells with a temperature of 20''
              @ [CHR 0xC2, CHR 0xB0] @ ''C (moderate) and a windspeed of 12.2 km/h.'')
   \<and> handle_weather (other_fetcher_env (JObj (pune_conditions 20))) ''weather in Pune'' =
     (Inr (''The current weather in Pune is Sunny spells with a temperature of 20''
             @ [CHR 0xC2, CHR 0xB0] @ ''C (moderate) and a windspeed of 12.2 km/h.''),
      [''https://geocoding-api.open-meteo.com/v1/search?name=Pune'',
       ''https://api.open-meteo.com/v1/forecast?latitude=18.5&longitude=73.8&current_weather=true''])
   \<and> fetch_weather_answer (other_fetcher_env (JObj (pune_conditions 20)))
        (''The current weather in Pune is Sunny spells with a temperature of 20''
           @ [CHR 0xC2, CHR 0xB0] @ ''C (moderate) and a windspeed of 12.2 km/h.'')"
proof -
  let ?T = "other_fetcher_env (JObj pune_forecast)"
  let ?C = "other_fetcher_env (JObj (pune_conditions 20))"
  let ?lat = "JFloat (Finite (37 / 2))"
  let ?lon = "JFloat (Finite (369 / 5))"
  let ?m1 = "''The weather in Pune tomorrow will be Sunny spells, with a high of 31''
             @ [CHR 0xC2, CHR 0xB0] @ ''C and a low of 22'' @ [CHR 0xC2, CHR 0xB0] @ ''C.''"
  let ?m2 = "''The current weather in Pune is Sunny spells with a temperature of 20''
             @ [CHR 0xC2, CHR 0xB0] @ ''C (moderate) and a windspeed of 12.2 km/h.''"
  have f: "weather_description_fetcher (other_fetcher_env w) c = Inr ''Sunny spells''" for w c
    by (simp add: other_fetcher_env_def)
  have c: "WeatherModule_weather_description_fetcher 61 = ''Slight rain''"
    "WeatherModule_weather_description_fetcher 2 = ''Partly cloudy''"
    by code_simp+
  have t1: "tomorrow_message ?T (JStr ''Pune'') ''Sunny spells'' (JInt 31) (JInt 22) = ?m1"
    by (simp add: tomorrow_message_def str_int_31 str_int_22 degree_sign_def)
  have s20: "str_int 20 = ''20''" by code_simp
  have t2: "current_message ?C (JStr ''Pune'') ''Sunny spells'' (JInt 20) ''moderate''
      (JFloat (Finite (61 / 5))) = ?m2"
    by (simp add: current_message_def s20 degree_sign_def other_fetcher_env_def sample_env_def
          sample_repr_def)
  have td: "temperature_description (JInt 20) = Inr ''moderate''"
    by (simp add: temperature_description_def and_then_def)
  have "fst (fetch_weather ?T ''Pune'' True) =
      Inr (tomorrow_message ?T (JStr ''Pune'') ''Sunny spells'' (JInt 31) (JInt 22))"
    using description_comes_from_import [where E = ?T and location = "''Pune''"
        and geocode_data = pune_results and first = pune_first and latitude = ?lat
        and longitude = ?lon and location_name = "JStr ''Pune''"
        and weather_data = pune_forecast and daily = pune_daily
        and temp_max = "JInt 31" and temp_min = "JInt 22" and weather_code = "JInt 61"
        and max_today = "JInt 30" and max_rest = "[JInt 29]" and min_today = "JInt 21"
        and min_rest = "[JInt 20]" and code_today = "JInt 3" and code_rest = "[JInt 0]"
        and description = "''Sunny spells''"]
      other_fetcher_replies_geocode [of "JObj pune_forecast"]
      other_fetcher_replies_weather [of "JObj pune_forecast" True]
      pune_results_first pune_first_fields f [of "JObj pune_forecast" "JInt 61"]
    by (simp add: pune_forecast_def pune_daily_def)
  then have 1: "fst (fetch_weather ?T ''Pune'' True) = Inr ?m1"
    unfolding t1 .
  obtain r u where ru: "fetch_weather ?T ''Pune'' True = (r, u)"
    by (cases "fetch_weather ?T ''Pune'' True")
  with 1 have "fetch_weather ?T ''Pune'' True = (Inr ?m1, u)" by simp
  then have 2: "fetch_weather_answer ?T ?m1"
    by (rule description_comes_from_import [THEN conjunct1, rule_format])
  have "fst (fetch_weather ?C ''Pune'' False) =
      Inr (current_message ?C (JStr ''Pune'') ''Sunny spells'' (JInt 20) ''moderate''
             (JFloat (Finite (61 / 5))))"
    using description_comes_from_import [where E = ?C and location = "''Pune''"
        and geocode_data = pune_results and first = pune_first and latitude = ?lat
        and longitude = ?lon and location_name = "JStr ''Pune''"
        and weather_data = "pune_conditions 20" and current_weather = "pune_current 20"
        and temperature = "JInt 20" and windspeed = "JFloat (Finite (61 / 5))"
        and description = "''Sunny spells''" and temperature_desc = "''moderate''"]
      other_fetcher_replies_geocode [of "JObj (pune_conditions 20)"]
      other_fetcher_replies_weather [of "JObj (pune_conditions 20)" False]
      pune_results_first pune_first_fields f td
    by (simp add: pune_conditions_def pune_current_def)
  then have 3: "fst (fetch_weather ?C ''Pune'' False) = Inr ?m2"
    unfolding t2 .
  have 4: "handle_weather ?C ''weather in Pune'' =
     (Inr ?m2,
      [''https://geocoding-api.open-meteo.com/v1/search?name=Pune'',
       ''https://api.open-meteo.com/v1/forecast?latitude=18.5&longitude=73.8&current_weather=true''])"
    by code_simp
  have m2: "?m2 \<noteq> clarification_message" "?m2 \<noteq> generic_error_message"
    by (simp_all add: clarification_message_def generic_error_message_def)
  from description_comes_from_import [THEN conjunct2, THEN conjunct1, rule_format, OF 4] m2
  have 5: "fetch_weather_answer ?C ?m2" by blast
  from f [of "JObj pune_forecast" "JInt 61"] c(1) 1 2 f [of "JObj (pune_conditions 20)" "JInt 2"]
    c(2) 3 4 5
  show ?thesis by blast
qed

end
